theory Spec2Isabelle
  imports Complex_Main
begin

section \<open>JavaScript values used by the bot\<close>

text \<open>
  A JavaScript number is a finite value, one of the two infinities, or \<open>NaN\<close>.
  A variable that is \<open>undefined\<close> where a number is expected behaves like \<open>NaN\<close> in
  every test the sources make (\<open>!x\<close>, \<open>x < y\<close>, \<open>x > y\<close>), so it is modelled by \<open>NaN\<close>.
  Finite values are taken as reals: rounding of the binary representation is not modelled.
\<close>

datatype jsnum = NaN | PosInf | NegInf | Fin real

text \<open>\<open>!x\<close> is true for \<open>0\<close> and \<open>NaN\<close>; \<open>truthy_num x\<close> is \<open>!!x\<close>.\<close>

fun truthy_num :: "jsnum \<Rightarrow> bool" where
  "truthy_num NaN = False"
| "truthy_num (Fin x) = (x \<noteq> 0)"
| "truthy_num PosInf = True"
| "truthy_num NegInf = True"

text \<open>\<open>a < b\<close> on numbers: false as soon as one side is \<open>NaN\<close>.\<close>

fun num_lt :: "jsnum \<Rightarrow> jsnum \<Rightarrow> bool" where
  "num_lt NaN _ = False"
| "num_lt _ NaN = False"
| "num_lt (Fin a) (Fin b) = (a < b)"
| "num_lt (Fin a) PosInf = True"
| "num_lt (Fin a) NegInf = False"
| "num_lt PosInf _ = False"
| "num_lt NegInf NegInf = False"
| "num_lt NegInf _ = True"

definition num_gt :: "jsnum \<Rightarrow> jsnum \<Rightarrow> bool" where
  "num_gt a b = num_lt b a"

text \<open>\<open>a >= b\<close>: not the negation of \<open>a < b\<close>, since both are false on \<open>NaN\<close>.\<close>

fun num_ge :: "jsnum \<Rightarrow> jsnum \<Rightarrow> bool" where
  "num_ge NaN _ = False"
| "num_ge _ NaN = False"
| "num_ge a b = (\<not> num_lt a b)"

text \<open>
  Arithmetic follows IEEE 754 on the special values. The sign of zero is not modelled:
  a division by zero takes the zero as positive.
\<close>

fun num_add :: "jsnum \<Rightarrow> jsnum \<Rightarrow> jsnum" where
  "num_add NaN _ = NaN"
| "num_add _ NaN = NaN"
| "num_add (Fin a) (Fin b) = Fin (a + b)"
| "num_add PosInf NegInf = NaN"
| "num_add NegInf PosInf = NaN"
| "num_add PosInf _ = PosInf"
| "num_add NegInf _ = NegInf"
| "num_add (Fin a) b = b"

fun num_neg :: "jsnum \<Rightarrow> jsnum" where
  "num_neg NaN = NaN"
| "num_neg PosInf = NegInf"
| "num_neg NegInf = PosInf"
| "num_neg (Fin a) = Fin (- a)"

definition num_sub :: "jsnum \<Rightarrow> jsnum \<Rightarrow> jsnum" where
  "num_sub a b = num_add a (num_neg b)"

definition signed_inf :: "bool \<Rightarrow> jsnum" where
  "signed_inf positive = (if positive then PosInf else NegInf)"

fun num_mul :: "jsnum \<Rightarrow> jsnum \<Rightarrow> jsnum" where
  "num_mul NaN _ = NaN"
| "num_mul _ NaN = NaN"
| "num_mul (Fin a) (Fin b) = Fin (a * b)"
| "num_mul (Fin a) PosInf = (if a = 0 then NaN else signed_inf (0 < a))"
| "num_mul (Fin a) NegInf = (if a = 0 then NaN else signed_inf (a < 0))"
| "num_mul PosInf (Fin b) = (if b = 0 then NaN else signed_inf (0 < b))"
| "num_mul NegInf (Fin b) = (if b = 0 then NaN else signed_inf (b < 0))"
| "num_mul PosInf PosInf = PosInf"
| "num_mul PosInf NegInf = NegInf"
| "num_mul NegInf PosInf = NegInf"
| "num_mul NegInf NegInf = PosInf"

fun num_div :: "jsnum \<Rightarrow> jsnum \<Rightarrow> jsnum" where
  "num_div NaN _ = NaN"
| "num_div _ NaN = NaN"
| "num_div (Fin a) (Fin b) =
     (if b = 0 then (if a = 0 then NaN else signed_inf (0 < a)) else Fin (a / b))"
| "num_div (Fin a) _ = Fin 0"
| "num_div PosInf (Fin b) = signed_inf (0 \<le> b)"
| "num_div NegInf (Fin b) = signed_inf (b < 0)"
| "num_div _ _ = NaN"

subsection \<open>Strings\<close>

text \<open>
  Strings are lists of characters. Case conversion is modelled on the ASCII letters, the
  only ones the command words and coin tickers use.
\<close>

definition lowerChar :: "char \<Rightarrow> char" where
  "lowerChar c =
     (case map_of (zip ''ABCDEFGHIJKLMNOPQRSTUVWXYZ'' ''abcdefghijklmnopqrstuvwxyz'') c of
        None \<Rightarrow> c | Some l \<Rightarrow> l)"

definition upperChar :: "char \<Rightarrow> char" where
  "upperChar c =
     (case map_of (zip ''abcdefghijklmnopqrstuvwxyz'' ''ABCDEFGHIJKLMNOPQRSTUVWXYZ'') c of
        None \<Rightarrow> c | Some u \<Rightarrow> u)"

definition toLowerCase :: "string \<Rightarrow> string" where
  "toLowerCase s = map lowerChar s"

definition toUpperCase :: "string \<Rightarrow> string" where
  "toUpperCase s = map upperChar s"

definition startsWith :: "string \<Rightarrow> string \<Rightarrow> bool" where
  "startsWith s p = (take (length p) s = p)"

definition isSpace :: "char \<Rightarrow> bool" where
  "isSpace c = (c \<in> set [CHR '' '', CHR 0x09, CHR 0x0A, CHR 0x0B, CHR 0x0C, CHR 0x0D])"

definition trim :: "string \<Rightarrow> string" where
  "trim s = rev (dropWhile isSpace (rev (dropWhile isSpace s)))"

text \<open>\<open>s.split(d)\<close> for a one-character separator.\<close>

fun split_on :: "char \<Rightarrow> string \<Rightarrow> string list" where
  "split_on d [] = [[]]"
| "split_on d (c # cs) =
     (if c = d then [] # split_on d cs
      else (case split_on d cs of [] \<Rightarrow> [[c]] | w # ws \<Rightarrow> (c # w) # ws))"

text \<open>\<open>params.join(' ')\<close>.\<close>

fun join_space :: "string list \<Rightarrow> string" where
  "join_space [] = []"
| "join_space [p] = p"
| "join_space (p # ps) = p @ '' '' @ join_space ps"

text \<open>\<open>xs[i]\<close>, which is \<open>undefined\<close> past the end.\<close>

fun at_index :: "'a list \<Rightarrow> nat \<Rightarrow> 'a option" where
  "at_index [] i = None"
| "at_index (x # xs) 0 = Some x"
| "at_index (x # xs) (Suc i) = at_index xs i"

text \<open>\<open>xs.indexOf(x)\<close> for an element that the callers take from \<open>xs\<close> itself.\<close>

fun indexOf :: "'a list \<Rightarrow> 'a \<Rightarrow> nat" where
  "indexOf [] x = 0"
| "indexOf (y # ys) x = (if y = x then 0 else Suc (indexOf ys x))"

subsection \<open>A reader of decimal literals\<close>

text \<open>
  The sources turn command words into numbers with the unary plus. The command functions
  below take that conversion as the parameter \<open>toNumber\<close>, so what is proved of them
  holds for the conversion of JavaScript. \<open>decimal\<close> is the conversion on the literals
  the examples use: optional sign, digits, optional fraction; the empty string is \<open>0\<close>;
  it answers \<open>NaN\<close> on everything else.
\<close>

fun digit_val :: "char \<Rightarrow> nat option" where
  "digit_val c = map_of (zip ''0123456789'' [0, 1, 2, 3, 4, 5, 6, 7, 8, 9]) c"

fun digits_val :: "nat \<Rightarrow> string \<Rightarrow> nat option" where
  "digits_val acc [] = Some acc"
| "digits_val acc (c # cs) =
     (case digit_val c of None \<Rightarrow> None | Some d \<Rightarrow> digits_val (10 * acc + d) cs)"

definition unsigned_decimal :: "string \<Rightarrow> real option" where
  "unsigned_decimal s =
     (let ip = takeWhile (\<lambda>c. c \<noteq> CHR ''.'') s;
          rest = dropWhile (\<lambda>c. c \<noteq> CHR ''.'') s;
          fp = (case rest of [] \<Rightarrow> [] | _ # f \<Rightarrow> f)
      in if ip = [] \<and> fp = [] then None
         else (case (digits_val 0 ip, digits_val 0 fp) of
                 (Some i, Some f) \<Rightarrow> Some (real i + real f / 10 ^ length fp)
               | _ \<Rightarrow> None))"

definition decimal :: "string \<Rightarrow> jsnum" where
  "decimal s0 =
     (let s = trim s0 in
      case s of
        [] \<Rightarrow> Fin 0
      | c # cs \<Rightarrow>
          if c = CHR ''-'' then (case unsigned_decimal cs of None \<Rightarrow> NaN | Some x \<Rightarrow> Fin (- x))
          else if c = CHR ''+'' then (case unsigned_decimal cs of None \<Rightarrow> NaN | Some x \<Rightarrow> Fin x)
          else (case unsigned_decimal s of None \<Rightarrow> NaN | Some x \<Rightarrow> Fin x))"

datatype order_type = Buy | Sell

section \<open>Trade parameters\<close>

text \<open>The fields of \<open>tradeParams\<close> that the modelled functions read or write.\<close>

record tradeParams =
  mm_buyPercent :: jsnum
  mm_isActive :: bool
  mm_isOrderBookActive :: bool
  mm_Policy :: string
  mm_orderBookOrdersCount :: jsnum

section \<open>Order book builder\<close>

subsection \<open>Side of an ob-order\<close>

text \<open>
  \<open>setType\<close> of the order book builder. The argument \<open>r\<close> is the value of
  \<open>Math.random()\<close>. The result \<open>None\<close> is the source's \<open>false\<close> (parameter not set).
  The source compares \<open>Math.random() > tradeParams.mm_buyPercent\<close> and answers
  \<open>'buy'\<close> when the comparison holds.
\<close>

definition setType :: "tradeParams \<Rightarrow> real \<Rightarrow> order_type option" where
  "setType tp r =
     (if \<not> truthy_num (mm_buyPercent tp) then None
      else Some (if num_gt (Fin r) (mm_buyPercent tp) then Buy else Sell))"

text \<open>The settings file \<open>tradeParams_atomars.js\<close>, on the fields of the record.\<close>

definition tradeParams_atomars :: tradeParams where
  "tradeParams_atomars =
     \<lparr>mm_buyPercent = Fin (67 / 100), mm_isActive = False, mm_isOrderBookActive = True,
      mm_Policy = ''optimal'', mm_orderBookOrdersCount = Fin 20\<rparr>"

subsection \<open>One tick of the builder\<close>

text \<open>A row of the orders database, restricted to the fields the builder reads.\<close>

record ob_order =
  order_id :: string
  order_side :: order_type
  order_price :: real
  dateTill :: int

text \<open>
  \<open>placeOrderBookOrder\<close> talks to the exchange and to the cached balances; what it does
  is decided by them. Each way the function can leave is a value here: the early returns,
  the exception caught by its \<open>try\<close>, a reply of the exchange without an order id, and the
  one path on which the order row is saved and \<open>true\<close> is returned.
\<close>

datatype attempt =
    OrderBookEmpty
  | TooFewLevels
  | NoPrice
  | BadParams
  | NotEnoughCoins
  | NoOrderId
  | PlaceThrew
  | Placed ob_order






subsection \<open>The tick loop and its re-entrancy flag\<close>

text \<open>
  Modelled from the spec: \<open>constants.MM_POLICIES_REGULAR\<close> is not under src/. The
  specification names \<open>optimal\<close> and \<open>spread\<close> as the regular policies.
\<close>

definition MM_POLICIES_REGULAR :: "string list" where
  "MM_POLICIES_REGULAR = [''optimal'', ''spread'']"

text \<open>
  The module variable \<open>isPreviousIterationFinished\<close>, with a counter of the
  \<open>buildOrderBook\<close> runs that have started and not yet returned. The counter is not a
  variable of the source: it records what the property speaks about.
\<close>

record builder =
  isPreviousIterationFinished :: bool
  inFlight :: nat

definition builder_init :: builder where
  "builder_init = \<lparr>isPreviousIterationFinished = True, inFlight = 0\<rparr>"

text \<open>
  JavaScript runs one callback at a time and lets another one in only at an \<open>await\<close>.
  \<open>iteration\<close> therefore consists of two atomic pieces: the part up to
  \<open>await this.buildOrderBook()\<close>, run when \<open>run()\<close> or a timer calls \<open>iteration\<close>, and the
  part after it, run when \<open>buildOrderBook\<close> has returned. \<open>IterationCalled tp interval\<close>
  is the first piece, with the trade parameters at that moment and the value of
  \<open>setPause()\<close>; \<open>BuildReturned\<close> is the second.
\<close>

datatype builder_event = IterationCalled tradeParams nat | BuildReturned

fun iteration :: "builder_event \<Rightarrow> builder \<Rightarrow> builder option" where
  "iteration (IterationCalled tp interval) b =
     (if interval \<noteq> 0 \<and> mm_isActive tp \<and> mm_isOrderBookActive tp
         \<and> mm_Policy tp \<in> set MM_POLICIES_REGULAR then
        (if isPreviousIterationFinished b then
           Some (b\<lparr>isPreviousIterationFinished := False, inFlight := Suc (inFlight b)\<rparr>)
         else Some b)
      else Some b)"
| "iteration BuildReturned b =
     (if inFlight b = 0 then None
      else Some (b\<lparr>isPreviousIterationFinished := True, inFlight := inFlight b - 1\<rparr>))"

text \<open>
  A history of the module: the events in the order they happen. \<open>None\<close> marks a history
  that cannot happen (a run returning when none is in flight).
\<close>

fun run_events :: "builder_event list \<Rightarrow> builder \<Rightarrow> builder option" where
  "run_events [] b = Some b"
| "run_events (e # es) b =
     (case iteration e b of None \<Rightarrow> None | Some b' \<Rightarrow> run_events es b')"

text \<open>What the flag and the counter of a reachable state satisfy.\<close>

definition builder_ok :: "builder \<Rightarrow> bool" where
  "builder_ok b \<longleftrightarrow> inFlight b \<le> 1 \<and> (isPreviousIterationFinished b \<longleftrightarrow> inFlight b = 0)"

section \<open>Exchange adapters: \<open>getOrderDetails\<close>\<close>

text \<open>
  The adapters receive JSON from the exchange. A field of a reply is \<open>undefined\<close>,
  \<open>null\<close>, a number or a string. \<open>loose_eq\<close> is the operator \<open>==\<close> on such values, with the
  conversion of strings to numbers as a parameter.
\<close>

datatype jsval = JUndefined | JNull | JNum jsnum | JStr string

fun num_eq :: "jsnum \<Rightarrow> jsnum \<Rightarrow> bool" where
  "num_eq NaN _ = False"
| "num_eq _ NaN = False"
| "num_eq a b = (a = b)"

fun loose_eq :: "(string \<Rightarrow> jsnum) \<Rightarrow> jsval \<Rightarrow> jsval \<Rightarrow> bool" where
  "loose_eq conv (JNum a) (JNum b) = num_eq a b"
| "loose_eq conv (JStr a) (JStr b) = (a = b)"
| "loose_eq conv (JNum a) (JStr b) = num_eq a (conv b)"
| "loose_eq conv (JStr a) (JNum b) = num_eq (conv a) b"
| "loose_eq conv JUndefined JUndefined = True"
| "loose_eq conv JUndefined JNull = True"
| "loose_eq conv JNull JUndefined = True"
| "loose_eq conv JNull JNull = True"
| "loose_eq conv _ _ = False"

text \<open>The outcome of an awaited request of an API client.\<close>

datatype 'a promise = Rejected | Resolved 'a

text \<open>
  The error text that the API client attaches to a reply (\<open>dextradeErrorInfo\<close>,
  \<open>bitqikErrorInfo\<close>, \<open>bitkubErrorInfo\<close>): absent, or a string, which is truthy when it
  is not empty.
\<close>

definition has_error_info :: "string option \<Rightarrow> bool" where
  "has_error_info info = (case info of None \<Rightarrow> False | Some text \<Rightarrow> text \<noteq> [])"


text \<open>
  Each \<open>getOrderDetails\<close> below returns the \<open>status\<close> field of the object the source
  returns, and \<open>None\<close> where the source returns \<open>undefined\<close>. The other fields of the
  object are unary-plus conversions and table lookups of the reply, which cannot throw;
  the property accesses and method calls that can throw are modelled, since they decide
  between a result and \<open>undefined\<close>.
\<close>

subsection \<open>DexTrade\<close>




subsection \<open>Bitqik\<close>



text \<open>\<open>value?.toLowerCase()\<close> throws on a value that is neither a string nor nullish.\<close>

definition lower_throws :: "jsval \<Rightarrow> bool" where
  "lower_throws v = (case v of JNum n \<Rightarrow> True | _ \<Rightarrow> False)"


subsection \<open>Bitkub\<close>

text \<open>\<open>order_detail.result\<close> of \<open>bitkubApiClient.getOrder\<close>.\<close>

record bitkub_info =
  bitkubErrorInfo :: "string option"
  bk_partial_filled :: bool
  bk_status :: jsval
  bk_post_only :: bool

text \<open>An entry of the open orders or of a page of the order history.\<close>

record bitkub_listed =
  bl_hash :: jsval
  bl_side :: jsval
  bl_type :: jsval

record bitkub_pagination =
  pg_last :: jsval
  pg_prev :: jsval

text \<open>A reply with a list of orders; the history replies carry a pagination.\<close>

record bitkub_page =
  bp_result :: "bitkub_listed list option"
  bp_pagination :: "bitkub_pagination option"

text \<open>\<open>forEach\<close> with an assignment on every match: the last match stays.\<close>

definition find_order :: "(string \<Rightarrow> jsnum) \<Rightarrow> string \<Rightarrow> bitkub_listed list \<Rightarrow> bitkub_listed option" where
  "find_order conv orderId entries =
     (case filter (\<lambda>oo. loose_eq conv (bl_hash oo) (JStr orderId)) entries of
        [] \<Rightarrow> None
      | found \<Rightarrow> Some (last found))"

datatype search = Threw | NotFound | Found bitkub_listed

text \<open>
  The loop \<open>while (processing)\<close> over the pages of the order history: first page \<open>1\<close>,
  then the last page, then the previous one of each page, until page \<open>1\<close> comes again.
  The pages are what the exchange answers, so the loop need not end: the function is
  partial, and \<open>None\<close> stands for a search that does not end. \<open>Some Threw\<close> is a rejected
  request or a reply without the field that is read, which the \<open>catch\<close> of
  \<open>getOrderDetails\<close> turns into \<open>undefined\<close>.
\<close>

partial_function (option) history_search ::
  "(string \<Rightarrow> jsnum) \<Rightarrow> (jsval \<Rightarrow> bitkub_page option promise) \<Rightarrow> string \<Rightarrow> jsval \<Rightarrow> bool \<Rightarrow> search option"
where
  "history_search conv getOrdersHistory orderId page start_last =
     (case getOrdersHistory page of
        Rejected \<Rightarrow> Some Threw
      | Resolved None \<Rightarrow> Some Threw
      | Resolved (Some history) \<Rightarrow>
          (case bp_result history of
             None \<Rightarrow> Some Threw
           | Some o_history \<Rightarrow>
               (case find_order conv orderId o_history of
                  Some order_find \<Rightarrow> Some (Found order_find)
                | None \<Rightarrow>
                    if page = JNum (Fin 1) then
                      (if start_last then Some NotFound
                       else (case bp_pagination history of
                               None \<Rightarrow> Some Threw
                             | Some pagination \<Rightarrow>
                                 history_search conv getOrdersHistory orderId
                                   (pg_last pagination) True))
                    else (case bp_pagination history of
                            None \<Rightarrow> Some Threw
                          | Some pagination \<Rightarrow>
                              history_search conv getOrdersHistory orderId
                                (pg_prev pagination) start_last))))"

text \<open>The search for \<open>order_find\<close>: the open orders first, then the history.\<close>

definition order_search ::
  "(string \<Rightarrow> jsnum) \<Rightarrow> bitkub_page option promise \<Rightarrow> (jsval \<Rightarrow> bitkub_page option promise) \<Rightarrow>
   string \<Rightarrow> search option"
where
  "order_search conv getOrders getOrdersHistory orderId =
     (case getOrders of
        Rejected \<Rightarrow> Some Threw
      | Resolved None \<Rightarrow> Some Threw
      | Resolved (Some orders) \<Rightarrow>
          (case bp_result orders of
             None \<Rightarrow> Some Threw
           | Some entries \<Rightarrow>
               (case find_order conv orderId entries of
                  Some order_find \<Rightarrow> Some (Found order_find)
                | None \<Rightarrow> history_search conv getOrdersHistory orderId (JNum (Fin 1)) False)))"

text \<open>The status that Bitkub's \<open>getOrderDetails\<close> gives to an order it has found.\<close>

definition bitkub_status :: "(string \<Rightarrow> jsnum) \<Rightarrow> bitkub_info \<Rightarrow> string" where
  "bitkub_status conv order =
     (if bk_partial_filled order then ''part_filled''
      else if loose_eq conv (bk_status order) (JStr ''unfilled'') then ''new''
      else if loose_eq conv (bk_status order) (JStr ''filled'') then ''filled''
      else if loose_eq conv (bk_status order) (JStr ''cancelled'') then ''cancelled''
      else ''unknown'')"

text \<open>
  \<open>getOrderDetails\<close> of the Bitkub adapter. The first argument after the conversion is
  the outcome of \<open>getOrder\<close>: \<open>Resolved None\<close> when the reply or its \<open>result\<close> is missing.
  The outer \<open>None\<close> of the result is a call that does not return.
\<close>

definition getOrderDetails_bitkub ::
  "(string \<Rightarrow> jsnum) \<Rightarrow> bitkub_info option promise \<Rightarrow> bitkub_page option promise \<Rightarrow>
   (jsval \<Rightarrow> bitkub_page option promise) \<Rightarrow> string \<Rightarrow> string option option"
where
  "getOrderDetails_bitkub conv getOrder getOrders getOrdersHistory orderId =
     (case getOrder of
        Rejected \<Rightarrow> Some None
      | Resolved None \<Rightarrow> Some None
      | Resolved (Some order) \<Rightarrow>
          if \<not> has_error_info (bitkubErrorInfo order) then
            (case order_search conv getOrders getOrdersHistory orderId of
               None \<Rightarrow> None
             | Some Threw \<Rightarrow> Some None
             | Some NotFound \<Rightarrow> Some (Some ''unknown'')
             | Some (Found order_find) \<Rightarrow>
                 if lower_throws (bl_side order_find) then Some None
                 else
                   (case bl_type order_find of
                      JStr t \<Rightarrow> Some (Some (bitkub_status conv order))
                    | _ \<Rightarrow> if bk_post_only order then Some (Some (bitkub_status conv order))
                           else Some None))
          else Some (Some ''unknown''))"

section \<open>Command processor\<close>

record commandResult =
  msgNotify :: string
  msgSendBack :: string
  notifyType :: string

subsection \<open>Confirmation with \<open>/y\<close>\<close>

definition timeToConfirm :: int where
  "timeToConfirm = 1000 * 60 * 10"

record pendingConfirmation =
  command :: string
  timestamp :: int

text \<open>
  The state of the command module: the pending confirmation, and everything else the
  commands can change (trade parameters, orders, the exchange), which \<open>y\<close> does not look at.
\<close>

record 'w bot =
  pending :: pendingConfirmation
  world :: 'w

text \<open>
  \<open>y\<close> hands the pending command to the command router, \<open>module.exports\<close> of the same
  file, which can run any command. The router is the parameter \<open>router\<close>: it takes the
  command text and the state, and returns the command result (\<open>None\<close> for \<open>undefined\<close>,
  which the router returns when the command itself returned \<open>undefined\<close>) and the new
  state. The second component of the result of \<open>y\<close> lists the command texts that this
  call handed to the router.

  When the router returns \<open>undefined\<close>, the assignment \<open>commandResult.msgNotify = ''\<close>
  throws; the \<open>catch\<close> logs the error, \<open>y\<close> returns \<open>undefined\<close>, and the pending command
  is not reset.
\<close>

definition y_command ::
  "(string \<Rightarrow> 'w bot \<Rightarrow> commandResult option \<times> 'w bot) \<Rightarrow> int \<Rightarrow> 'w bot \<Rightarrow>
   commandResult option \<times> string list \<times> 'w bot"
where
  "y_command router now s =
     (if command (pending s) \<noteq> [] then
        (if now - timestamp (pending s) > timeToConfirm then
           (Some \<lparr>msgNotify = [],
                  msgSendBack = ''I will not confirm command '' @ command (pending s)
                                 @ '' as it is expired. Try again.'',
                  notifyType = ''log''\<rparr>,
            [],
            s\<lparr>pending := (pending s)\<lparr>command := []\<rparr>\<rparr>)
         else
           (case router (command (pending s) @ '' -y'') s of
              (None, s') \<Rightarrow> (None, [command (pending s) @ '' -y''], s')
            | (Some commandResult, s') \<Rightarrow>
                (Some (commandResult\<lparr>msgNotify := []\<rparr>),
                 [command (pending s) @ '' -y''],
                 s'\<lparr>pending := (pending s')\<lparr>command := []\<rparr>\<rparr>)))
      else
        (Some \<lparr>msgNotify = [], msgSendBack = ''There is no pending command to confirm.'',
               notifyType = ''log''\<rparr>,
         [], s))"

text \<open>
  The \<open>y\<close> of the second command router in the repository. Every path of its \<open>try\<close>
  returns, so the assignment \<open>pendingConfirmation.command = ''\<close> placed after the \<open>try\<close>
  is not reached. The router is called without \<open>await\<close> and its result is dropped.
\<close>

definition y_command_legacy ::
  "(string \<Rightarrow> 'w bot \<Rightarrow> commandResult option \<times> 'w bot) \<Rightarrow> int \<Rightarrow> 'w bot \<Rightarrow>
   commandResult option \<times> string list \<times> 'w bot"
where
  "y_command_legacy router now s =
     (if command (pending s) \<noteq> [] then
        (if now - timestamp (pending s) > timeToConfirm then
           (Some \<lparr>msgNotify = [],
                  msgSendBack = ''I will not confirm command '' @ command (pending s)
                                 @ '' as it is expired. Try again.'',
                  notifyType = ''log''\<rparr>,
            [], s)
         else
           (Some \<lparr>msgNotify = [], msgSendBack = [], notifyType = ''log''\<rparr>,
            [command (pending s) @ '' -y''],
            snd (router (command (pending s) @ '' -y'') s)))
      else
        (Some \<lparr>msgNotify = [], msgSendBack = ''There is no pending command to confirm.'',
               notifyType = ''log''\<rparr>,
         [], s))"

text \<open>Two invocations of a \<open>y\<close> one after the other, at the times \<open>now1\<close> and \<open>now2\<close>.\<close>

definition twice ::
  "(int \<Rightarrow> 'w bot \<Rightarrow> commandResult option \<times> string list \<times> 'w bot) \<Rightarrow> int \<Rightarrow> int \<Rightarrow> 'w bot \<Rightarrow>
   (commandResult option \<times> string list) \<times> (commandResult option \<times> string list)"
where
  "twice confirm now1 now2 s =
     (case confirm now1 s of
        (r1, calls1, s1) \<Rightarrow>
          (case confirm now2 s1 of (r2, calls2, s2) \<Rightarrow> ((r1, calls1), (r2, calls2))))"

subsection \<open>Configuration and helper modules\<close>

text \<open>The fields of \<open>config\<close> that the modelled commands read.\<close>

record config =
  config_pair :: string
  config_coin1 :: string
  config_coin2 :: string
  config_exchangeName :: string
  amount_to_confirm_usd :: jsnum

text \<open>\<open>pairObj\<close>, the answer of \<open>orderUtils.parseMarket\<close>.\<close>

record pairObj =
  po_pair :: string
  po_coin1 :: string
  po_coin2 :: string

text \<open>
  The commands call into modules that are not part of the modelled sources
  (\<open>helpers/utils\<close>, \<open>trade/orderUtils\<close>, \<open>trade/orderCollector\<close>,
  \<open>helpers/cryptos/exchanger\<close>) and convert strings to numbers. These are parameters of
  the commands, collected in one record:
  \<^item> \<open>toNumber\<close>: the unary plus on a string;
  \<^item> \<open>parseMarket\<close>: \<open>orderUtils.parseMarket\<close>;
  \<^item> \<open>isPositiveOrZeroNumber\<close>, \<open>isPositiveNumber\<close>: the tests of \<open>utils\<close>;
  \<^item> \<open>orderPurposes\<close>: the table \<open>orderCollector.orderPurposes\<close>, purpose tag and
    description, in the order of its keys;
  \<^item> \<open>convertCryptos from to amount\<close>: \<open>outAmount\<close> of \<open>exchangerUtils.convertCryptos\<close>.
\<close>

record helpers =
  toNumber :: "string \<Rightarrow> jsnum"
  parseMarket :: "string \<Rightarrow> pairObj"
  isPositiveOrZeroNumber :: "jsnum \<Rightarrow> bool"
  isPositiveNumber :: "jsnum \<Rightarrow> bool"
  orderPurposes :: "(string \<times> string) list"
  convertCryptos :: "string \<Rightarrow> string \<Rightarrow> jsnum \<Rightarrow> jsnum"

subsection \<open>\<open>/buypercent\<close>\<close>

datatype buypercent_reply = InvalidPercentage | BuyPercentSet jsnum

text \<open>
  \<open>buypercent\<close>: the value must be truthy, not \<open>Infinity\<close>, and within \<open>0\<close> and \<open>100\<close>.
  The reply of the source says, for the accepted value \<open>val\<close>, that the market is made
  with \<open>val\<close> percent of buy orders and that order book building is set to
  \<open>100 - val\<close> percent of buy orders.
\<close>

definition buypercent :: "helpers \<Rightarrow> string list \<Rightarrow> tradeParams \<Rightarrow> buypercent_reply \<times> tradeParams" where
  "buypercent h param tp =
     (let val = toNumber h (trim (case param of [] \<Rightarrow> [] | p # _ \<Rightarrow> p)) in
      if \<not> truthy_num val \<or> val = PosInf \<or> num_lt val (Fin 0) \<or> num_gt val (Fin 100)
      then (InvalidPercentage, tp)
      else (BuyPercentSet val, tp\<lparr>mm_buyPercent := num_div val (Fin 100)\<rparr>))"

subsection \<open>\<open>/clear\<close>\<close>

text \<open>The variable \<open>purposes\<close>: unset, the string \<open>all\<close>, the string \<open>unk\<close>, or an array of tags.\<close>

datatype purposes = NoPurposes | AllPurposes | UnkPurposes | Purposes "string list"

text \<open>The database filter on the price: \<open>{ price: { $lt: P } }\<close> or \<open>{ price: { $gt: P } }\<close>.\<close>

datatype price_filter = PriceLt jsnum | PriceGt jsnum

text \<open>The local variables of \<open>clear\<close> that its loop over the parameters assigns.\<close>

record clear_vars =
  c_type :: "order_type option"
  c_doForce :: bool
  c_purposes :: purposes
  c_purposeString :: "string option"
  c_filter :: "price_filter option"
  c_filerPriceString :: "string option"

definition clear_vars_init :: clear_vars where
  "clear_vars_init =
     \<lparr>c_type = None, c_doForce = False, c_purposes = NoPurposes, c_purposeString = None,
      c_filter = None, c_filerPriceString = None\<rparr>"

text \<open>
  What \<open>clear\<close> does in the end: it replies with a message, or it calls one of the three
  functions of the order collector. The arguments kept are the ones that select orders.
\<close>

datatype clear_action =
    SendBack string
  | ClearAllOrders string bool "order_type option"
  | ClearUnknownOrders string bool "order_type option"
  | ClearLocalOrders "string list" string bool "order_type option" "price_filter option"

text \<open>\<open>Object.keys(orderPurposes).forEach\<close>: the last key equal to the parameter wins.\<close>

fun clear_purpose :: "(string \<times> string) list \<Rightarrow> string \<Rightarrow> clear_vars \<Rightarrow> clear_vars" where
  "clear_purpose [] param v = v"
| "clear_purpose ((purpose, description) # rest) param v =
     clear_purpose rest param
       (if toLowerCase param = purpose
        then v\<lparr>c_purposes := Purposes [purpose],
               c_purposeString := Some (toLowerCase description)\<rparr>
        else v)"

text \<open>The apostrophe, for the messages that contain one.\<close>

definition apostrophe :: string where
  "apostrophe = [CHR 0x27]"

text \<open>
  The body of the loop \<open>for (const param of params)\<close>. \<open>Inl\<close> is a \<open>return\<close> from inside
  the loop, with the message sent back.
\<close>

definition clear_param ::
  "helpers \<Rightarrow> config \<Rightarrow> pairObj \<Rightarrow> string list \<Rightarrow> string \<Rightarrow> clear_vars \<Rightarrow> string + clear_vars"
where
  "clear_param h cfg po params param v0 =
     (let l = toLowerCase param;
          v1 = (if l = ''buy'' then v0\<lparr>c_type := Some Buy\<rparr> else v0);
          v2 = (if l = ''sell'' then v1\<lparr>c_type := Some Sell\<rparr> else v1);
          v3 = (if l = ''force'' then v2\<lparr>c_doForce := True\<rparr> else v2);
          v4 = (if l = ''all'' then v3\<lparr>c_purposes := AllPurposes\<rparr> else v3);
          v5 = (if l = ''unk''
                then v4\<lparr>c_purposes := UnkPurposes, c_purposeString := Some ''unknown''\<rparr>
                else v4);
          v6 = clear_purpose (filter (\<lambda>(k, d). k \<noteq> ''all'') (orderPurposes h)) param v5
      in
      if startsWith param ''>'' \<or> startsWith param ''<'' then
        (if c_purposes v6 = AllPurposes \<or> c_purposes v6 = UnkPurposes then
           Inl (''Price filter doesn'' @ apostrophe @ ''t work with **all** and **unk** orders. ''
                @ ''Try: */clear mm sell >0.5 '' @ config_coin2 cfg @ ''*.'')
         else
           (let paramIndex = indexOf params param;
                operator = take 1 param;
                price = toNumber h (drop 1 param)
            in
            if \<not> isPositiveOrZeroNumber h price then
              Inl (''Indicate price after '' @ apostrophe @ operator @ apostrophe
                   @ ''. Example: */clear mm sell >0.5 '' @ config_coin2 cfg @ ''*.'')
            else if map_option toUpperCase (at_index params (paramIndex + 1)) \<noteq> Some (po_coin2 po)
            then
              Inl (''Price should be in '' @ po_coin2 po @ '' for '' @ po_pair po
                   @ ''. Example: */clear '' @ po_pair po @ '' mm sell >0.5 '' @ po_coin2 po @ ''*.'')
            else
              Inr (v6\<lparr>c_filerPriceString := Some param,
                      c_filter := Some (if operator = ''<'' then PriceLt price
                                        else PriceGt price)\<rparr>)))
      else Inr v6)"

fun clear_loop ::
  "helpers \<Rightarrow> config \<Rightarrow> pairObj \<Rightarrow> string list \<Rightarrow> string list \<Rightarrow> clear_vars \<Rightarrow> string + clear_vars"
where
  "clear_loop h cfg po params [] v = Inr v"
| "clear_loop h cfg po params (param # rest) v =
     (case clear_param h cfg po params param v of
        Inl message \<Rightarrow> Inl message
      | Inr v' \<Rightarrow> clear_loop h cfg po params rest v')"

text \<open>\<open>clear\<close> of the first command router.\<close>

definition clear :: "helpers \<Rightarrow> config \<Rightarrow> string list \<Rightarrow> clear_action" where
  "clear h cfg params =
     (let pair = (case params of
                    [] \<Rightarrow> config_pair cfg
                  | p # _ \<Rightarrow> if p = [] \<or> CHR ''/'' \<notin> set p then config_pair cfg else p);
          po = parseMarket h pair
      in
      case clear_loop h cfg po params params clear_vars_init of
        Inl message \<Rightarrow> SendBack message
      | Inr v \<Rightarrow>
          (case c_purposes v of
             NoPurposes \<Rightarrow> SendBack ''Specify type of orders to clear. F. e., */clear mm sell*.''
           | AllPurposes \<Rightarrow> ClearAllOrders (po_pair po) (c_doForce v) (c_type v)
           | UnkPurposes \<Rightarrow> ClearUnknownOrders (po_pair po) (c_doForce v) (c_type v)
           | Purposes ps \<Rightarrow>
               ClearLocalOrders ps (po_pair po) (c_doForce v) (c_type v) (c_filter v)))"

subsection \<open>Order collector\<close>

text \<open>A row of the order ledger, on the fields the collector selects by.\<close>

record ledger_order =
  lo_id :: string
  lo_purpose :: string
  lo_pair :: string
  lo_type :: order_type
  lo_price :: real
  lo_isClosed :: bool

text \<open>
  Modelled from the spec: \<open>orderCollector.clearLocalOrders\<close> is not under src/. The
  specification (order collector) has it accept a selector of purposes, pair, optional
  side and optional price filter, with a force flag, and for each matching ledger order
  issue \<open>cancelOrder\<close>; an order reported as already closed is marked closed; after a
  transient failure the order is left for a retry without force and marked closed with
  force. It returns the counts \<open>attempted\<close>, \<open>cancelled\<close>, \<open>failed\<close>, \<open>alreadyClosed\<close>.
\<close>

definition price_matches :: "price_filter option \<Rightarrow> real \<Rightarrow> bool" where
  "price_matches f x =
     (case f of
        None \<Rightarrow> True
      | Some (PriceLt p) \<Rightarrow> num_lt (Fin x) p
      | Some (PriceGt p) \<Rightarrow> num_gt (Fin x) p)"

definition selected ::
  "string list \<Rightarrow> string \<Rightarrow> order_type option \<Rightarrow> price_filter option \<Rightarrow> ledger_order \<Rightarrow> bool"
where
  "selected ps pair side f order \<longleftrightarrow>
     \<not> lo_isClosed order \<and> lo_purpose order \<in> set ps \<and> lo_pair order = pair \<and>
     (case side of None \<Rightarrow> True | Some t \<Rightarrow> lo_type order = t) \<and>
     price_matches f (lo_price order)"

datatype cancel_reply = Cancelled | AlreadyClosed | TransientFailure

record clearedInfo =
  attempted :: "string list"
  cancelled :: nat
  failed :: nat
  alreadyClosed :: nat

definition clearedInfo_none :: clearedInfo where
  "clearedInfo_none = \<lparr>attempted = [], cancelled = 0, failed = 0, alreadyClosed = 0\<rparr>"

text \<open>
  \<open>attempted\<close> lists the ids of the orders for which \<open>cancelOrder\<close> was issued, in ledger
  order; the count of the specification is its length.
\<close>

fun clearLocalOrders ::
  "(ledger_order \<Rightarrow> cancel_reply) \<Rightarrow> string list \<Rightarrow> string \<Rightarrow> bool \<Rightarrow> order_type option \<Rightarrow>
   price_filter option \<Rightarrow> ledger_order list \<Rightarrow> clearedInfo \<times> ledger_order list"
where
  "clearLocalOrders cancelOrder ps pair doForce side f [] = (clearedInfo_none, [])"
| "clearLocalOrders cancelOrder ps pair doForce side f (order # rest) =
     (case clearLocalOrders cancelOrder ps pair doForce side f rest of
        (info, rest') \<Rightarrow>
          if selected ps pair side f order then
            (case cancelOrder order of
               Cancelled \<Rightarrow>
                 (info\<lparr>attempted := lo_id order # attempted info, cancelled := Suc (cancelled info)\<rparr>,
                  order\<lparr>lo_isClosed := True\<rparr> # rest')
             | AlreadyClosed \<Rightarrow>
                 (info\<lparr>attempted := lo_id order # attempted info,
                        alreadyClosed := Suc (alreadyClosed info)\<rparr>,
                  order\<lparr>lo_isClosed := True\<rparr> # rest')
             | TransientFailure \<Rightarrow>
                 (info\<lparr>attempted := lo_id order # attempted info, failed := Suc (failed info)\<rparr>,
                  order\<lparr>lo_isClosed := doForce\<rparr> # rest'))
          else (info, order # rest'))"

text \<open>
  The \<open>/clear\<close> command on a ledger, for the commands that reach \<open>clearLocalOrders\<close>:
  the collector's report and the ledger afterwards. \<open>None\<close> stands for the other outcomes
  of \<open>clear\<close> (a message sent back, or a call of the other two collector functions).
\<close>

definition clear_local ::
  "helpers \<Rightarrow> config \<Rightarrow> (ledger_order \<Rightarrow> cancel_reply) \<Rightarrow> string list \<Rightarrow> ledger_order list \<Rightarrow>
   (clearedInfo \<times> ledger_order list) option"
where
  "clear_local h cfg cancelOrder params ledger =
     (case clear h cfg params of
        ClearLocalOrders ps pair doForce side f \<Rightarrow>
          Some (clearLocalOrders cancelOrder ps pair doForce side f ledger)
      | _ \<Rightarrow> None)"

text \<open>The word of a \<open>/clear\<close> command that names the side, when there is one.\<close>

definition side_words :: "order_type option \<Rightarrow> string list" where
  "side_words side = (case side of None \<Rightarrow> [] | Some Buy \<Rightarrow> [''buy''] | Some Sell \<Rightarrow> [''sell''])"

text \<open>
  The selection that a command \<open>/clear tag [side] >P coin\<close> or \<open>/clear tag [side] <P coin\<close>
  describes: open orders of that purpose, pair and side, with a price strictly beyond \<open>P\<close>.
\<close>

definition matches_command ::
  "string \<Rightarrow> string \<Rightarrow> order_type option \<Rightarrow> char \<Rightarrow> real \<Rightarrow> ledger_order \<Rightarrow> bool"
where
  "matches_command tag pair side operator P order \<longleftrightarrow>
     \<not> lo_isClosed order \<and> lo_purpose order = tag \<and> lo_pair order = pair \<and>
     (case side of None \<Rightarrow> True | Some t \<Rightarrow> lo_type order = t) \<and>
     (if operator = CHR ''<'' then lo_price order < P else P < lo_price order)"

subsection \<open>Requests to place an order\<close>

text \<open>
  The arguments of a call of \<open>orderUtils.addGeneralOrder\<close>: side, pair, price, base
  amount, the limit flag, the quote amount (\<open>None\<close> for \<open>null\<close>) and the purpose tag.
\<close>

record order_request =
  rq_type :: order_type
  rq_pair :: string
  rq_price :: jsnum
  rq_coin1Amount :: jsnum
  rq_limit :: nat
  rq_coin2Amount :: "jsnum option"
  rq_purpose :: string

subsection \<open>\<open>/fill\<close>\<close>

text \<open>The variables \<open>count\<close>, \<open>amount\<close>, \<open>low\<close>, \<open>high\<close>, \<open>amountName\<close> of \<open>fill\<close>.\<close>

record fill_vars =
  f_count :: jsnum
  f_amount :: jsnum
  f_low :: jsnum
  f_high :: jsnum
  f_amountName :: "string option"

definition fill_vars_init :: fill_vars where
  "fill_vars_init = \<lparr>f_count = NaN, f_amount = NaN, f_low = NaN, f_high = NaN, f_amountName = None\<rparr>"

text \<open>
  \<open>+param.split('=')[1].trim()\<close>: \<open>None\<close> when the parameter has no \<open>=\<close>, where the
  source throws a TypeError.
\<close>

definition fill_value :: "helpers \<Rightarrow> string \<Rightarrow> jsnum option" where
  "fill_value h param =
     (case split_on (CHR ''='') param of
        _ # x # _ \<Rightarrow> Some (toNumber h (trim x))
      | _ \<Rightarrow> None)"

text \<open>
  The callback of \<open>params.forEach\<close>: five tests in a row inside one \<open>try\<close>. A test
  that throws ends the callback; what was assigned before stays. The \<open>return\<close> in the
  \<open>catch\<close> returns from the callback only.
\<close>

fun fill_assign ::
  "helpers \<Rightarrow> string \<Rightarrow> (string \<times> (jsnum \<Rightarrow> fill_vars \<Rightarrow> fill_vars)) list \<Rightarrow> fill_vars \<Rightarrow> fill_vars"
where
  "fill_assign h param [] v = v"
| "fill_assign h param ((word, assign) # rest) v =
     (if startsWith param word then
        (case fill_value h param of
           None \<Rightarrow> v
         | Some n \<Rightarrow> fill_assign h param rest (assign n v))
      else fill_assign h param rest v)"

definition fill_param :: "helpers \<Rightarrow> fill_vars \<Rightarrow> string \<Rightarrow> fill_vars" where
  "fill_param h v param =
     fill_assign h param
       [(''count'', \<lambda>n v. v\<lparr>f_count := n\<rparr>),
        (''amount'', \<lambda>n v. v\<lparr>f_amount := n, f_amountName := Some ''amount''\<rparr>),
        (''quote'', \<lambda>n v. v\<lparr>f_amount := n, f_amountName := Some ''quote''\<rparr>),
        (''low'', \<lambda>n v. v\<lparr>f_low := n\<rparr>),
        (''high'', \<lambda>n v. v\<lparr>f_high := n\<rparr>)] v"

text \<open>What \<open>fill\<close> knows once its arguments have passed every check.\<close>

record fill_args =
  fa_type :: order_type
  fa_pairObj :: pairObj
  fa_amount :: jsnum
  fa_amountName :: string
  fa_count :: jsnum
  fa_low :: jsnum
  fa_high :: jsnum

text \<open>
  The first part of \<open>fill\<close>, up to the test \<open>low > high\<close>: the arguments, or the message
  sent back.
\<close>

definition fill_arguments :: "helpers \<Rightarrow> config \<Rightarrow> string list \<Rightarrow> string + fill_args" where
  "fill_arguments h cfg params =
     (let v = foldl (fill_param h) fill_vars_init params in
      if length params < 4 then
        Inl (''Wrong arguments. It works like this: */fill ADM/BTC buy quote=0.00002000 ''
             @ ''low=0.00000100 high=0.00000132 count=7*.'')
      else
        (let first = (case params of [] \<Rightarrow> [] | p # _ \<Rightarrow> p);
             fromParam = (first \<noteq> [] \<and> CHR ''/'' \<in> set first);
             pair = (if fromParam then first else config_pair cfg);
             type = map_option (\<lambda>w. toLowerCase (trim w))
                      (if fromParam then at_index params 1 else at_index params 0)
         in
         if type \<noteq> Some ''buy'' \<and> type \<noteq> Some ''sell'' then
           Inl (''Specify _buy_ or _sell_ orders to fill. Example: */fill ADM/BTC buy ''
                @ ''quote=0.00002000 low=0.00000100 high=0.00000132 count=7*.'')
         else if \<not> truthy_num (f_amount v) \<or> f_amountName v = None
                 \<or> (type = Some ''buy'' \<and> f_amountName v = Some ''amount'')
                 \<or> (type = Some ''sell'' \<and> f_amountName v = Some ''quote'') then
           Inl ''Buy should follow with _quote_, sell with _amount_.''
         else if \<not> truthy_num (f_count v) \<or> f_count v = PosInf \<or> num_lt (f_count v) (Fin 1) then
           Inl ''Specify order count.''
         else if \<not> truthy_num (f_high v) \<or> f_high v = PosInf
                 \<or> \<not> truthy_num (f_low v) \<or> f_low v = PosInf then
           Inl ''Specify _low_ and _high_ prices to fill orders.''
         else if num_gt (f_low v) (f_high v) then
           Inl ''To fill orders _high_ should be greater than _low_.''
         else
           Inr \<lparr>fa_type = (if type = Some ''buy'' then Buy else Sell),
                fa_pairObj = parseMarket h pair,
                fa_amount = f_amount v,
                fa_amountName = (case f_amountName v of None \<Rightarrow> [] | Some n \<Rightarrow> n),
                fa_count = f_count v, fa_low = f_low v, fa_high = f_high v\<rparr>))"

text \<open>An entry of the balances list.\<close>

record balance =
  b_code :: string
  b_free :: jsnum

text \<open>\<open>balances.filter((crypto) => crypto.code === coin)?.[0]?.free || 0\<close>.\<close>

definition free_balance :: "balance list \<Rightarrow> string \<Rightarrow> jsnum" where
  "free_balance balances coin =
     (case filter (\<lambda>crypto. b_code crypto = coin) balances of
        [] \<Rightarrow> Fin 0
      | crypto # _ \<Rightarrow> if truthy_num (b_free crypto) then b_free crypto else Fin 0)"

text \<open>
  What \<open>fill\<close> meets outside: the cached balances (\<open>None\<close> when they cannot be read), the
  values of \<open>utils.randomDeviation\<close> (the first argument numbers the calls of one
  command), and whether the \<open>i\<close>-th call of \<open>addGeneralOrder\<close> returns an order with an id.
\<close>

record fill_env =
  getBalancesCached :: "balance list option"
  randomDeviation :: "nat \<Rightarrow> jsnum \<Rightarrow> jsnum \<Rightarrow> jsnum"
  addGeneralOrder :: "nat \<Rightarrow> order_request \<Rightarrow> bool"

record fill_order =
  fo_price :: jsnum
  fo_amount :: jsnum
  fo_altAmount :: jsnum

text \<open>
  The loop that makes the order list, for the draws of \<open>randomDeviation\<close>, the side, and
  the \<open>amount\<close>, \<open>count\<close> and \<open>high\<close> of the command. \<open>n\<close> counts the iterations left
  (\<open>i < count\<close>), \<open>i\<close> is the loop variable; \<open>price\<close> and the running \<open>total\<close> (here
  \<open>sum0\<close>) are carried along.
  A \<open>break\<close> ends the list.
\<close>

fun fill_orderList ::
  "(nat \<Rightarrow> jsnum \<Rightarrow> jsnum \<Rightarrow> jsnum) \<Rightarrow> order_type \<Rightarrow> jsnum \<Rightarrow> jsnum \<Rightarrow> jsnum \<Rightarrow>
   jsnum \<Rightarrow> jsnum \<Rightarrow> nat \<Rightarrow> nat \<Rightarrow> jsnum \<Rightarrow> jsnum \<Rightarrow> fill_order list"
where
  "fill_orderList draw type amount count high step orderAmount 0 i price sum0 = []"
| "fill_orderList draw type amount count high step orderAmount (Suc n) i price sum0 =
     (let deviation = Fin (9 / 10);
          price1 = num_add price (draw (2 * i) step deviation);
          drawn = draw (2 * i + 1) orderAmount deviation;
          sum1 = num_add sum0 drawn
      in
      if num_gt sum1 amount \<and> count \<noteq> Fin 1 then []
      else
        (let coin1Amount = (if num_gt sum1 amount then amount else drawn) in
         if num_gt price1 high \<and> count \<noteq> Fin 1 then []
         else
           (let price2 = (if num_gt price1 high then high else price1) in
            (if type = Buy
             then \<lparr>fo_price = price2, fo_amount = num_div coin1Amount price2,
                   fo_altAmount = coin1Amount\<rparr>
             else \<lparr>fo_price = price2, fo_amount = coin1Amount,
                   fo_altAmount = num_mul coin1Amount price2\<rparr>)
            # fill_orderList draw type amount count high step orderAmount n (Suc i) price2 sum1)))"

datatype fill_reply =
    FillMessage string
  | FillConfirmation
  | FillPlaced nat nat jsnum jsnum
  | FillNothingPlaced

text \<open>
  The outcome of \<open>fill\<close>: the reply, the calls of \<open>addGeneralOrder\<close> it made, in order,
  and the command it left for confirmation, if any.
\<close>

record fill_result =
  fr_reply :: fill_reply
  fr_requests :: "order_request list"
  fr_pending :: "string option"

text \<open>The placing loop: counts and totals over the orders of the list, from index \<open>i\<close> on.\<close>

fun fill_place ::
  "fill_env \<Rightarrow> fill_args \<Rightarrow> nat \<Rightarrow> fill_order list \<Rightarrow> nat \<times> nat \<times> jsnum \<times> jsnum \<Rightarrow> nat \<times> nat \<times> jsnum \<times> jsnum"
where
  "fill_place env a i [] acc = acc"
| "fill_place env a i (order # rest) (placedOrders, notPlacedOrders, total1, total2) =
     (if addGeneralOrder env i
           \<lparr>rq_type = fa_type a, rq_pair = po_pair (fa_pairObj a), rq_price = fo_price order,
            rq_coin1Amount = fo_amount order, rq_limit = 1, rq_coin2Amount = None,
            rq_purpose = ''man''\<rparr>
      then fill_place env a (Suc i) rest
             (Suc placedOrders, notPlacedOrders, num_add total1 (fo_amount order),
              num_add total2 (fo_altAmount order))
      else fill_place env a (Suc i) rest (placedOrders, Suc notPlacedOrders, total1, total2))"

text \<open>The number of turns of \<open>for (let i = 0; i < count; i++)\<close> when nothing breaks it.\<close>

definition loop_turns :: "jsnum \<Rightarrow> nat" where
  "loop_turns count = (case count of Fin c \<Rightarrow> nat \<lceil>c\<rceil> | _ \<Rightarrow> 0)"

text \<open>\<open>fill\<close> of the first command router.\<close>

definition fill :: "helpers \<Rightarrow> config \<Rightarrow> fill_env \<Rightarrow> string list \<Rightarrow> fill_result" where
  "fill h cfg env params =
     (case fill_arguments h cfg params of
        Inl message \<Rightarrow> \<lparr>fr_reply = FillMessage message, fr_requests = [], fr_pending = None\<rparr>
      | Inr a \<Rightarrow>
          (case getBalancesCached env of
             None \<Rightarrow>
               \<lparr>fr_reply = FillMessage (''Unable to get '' @ config_exchangeName cfg
                                          @ '' balances. Try again.''),
                fr_requests = [], fr_pending = None\<rparr>
           | Some balances \<Rightarrow>
               (let coin = (if fa_type a = Buy then po_coin2 (fa_pairObj a)
                            else po_coin1 (fa_pairObj a));
                    isBalanceEnough = num_ge (free_balance balances coin) (fa_amount a)
                in
                if \<not> isBalanceEnough then
                  \<lparr>fr_reply = FillMessage (''Not enough '' @ coin
                                             @ '' to fill orders. Check balances.''),
                   fr_requests = [], fr_pending = None\<rparr>
                else
                  (let totalUSD =
                         convertCryptos h
                           (if fa_amountName a = ''quote'' then po_coin2 (fa_pairObj a)
                            else po_coin1 (fa_pairObj a))
                           ''USD'' (fa_amount a);
                       isConfirmed = list_ex (\<lambda>param. toLowerCase param = ''-y'') params
                   in
                   if truthy_num (amount_to_confirm_usd cfg) \<and> truthy_num totalUSD
                      \<and> num_ge totalUSD (amount_to_confirm_usd cfg) \<and> \<not> isConfirmed then
                     \<lparr>fr_reply = FillConfirmation, fr_requests = [],
                      fr_pending = Some (''/fill '' @ join_space params)\<rparr>
                   else
                     (let step = num_div (num_sub (fa_high a) (fa_low a)) (fa_count a);
                          orderAmount = num_div (fa_amount a) (fa_count a);
                          orderList = fill_orderList (randomDeviation env) (fa_type a)
                                        (fa_amount a) (fa_count a) (fa_high a) step orderAmount
                                        (loop_turns (fa_count a)) 0 (fa_low a) (Fin 0)
                      in
                      case fill_place env a 0 orderList (0, 0, Fin 0, Fin 0) of
                        (placedOrders, notPlacedOrders, total1, total2) \<Rightarrow>
                          \<lparr>fr_reply = (if placedOrders > 0
                                        then FillPlaced placedOrders notPlacedOrders total1 total2
                                        else FillNothingPlaced),
                           fr_requests =
                             map (\<lambda>order.
                                    \<lparr>rq_type = fa_type a, rq_pair = po_pair (fa_pairObj a),
                                     rq_price = fo_price order, rq_coin1Amount = fo_amount order,
                                     rq_limit = 1, rq_coin2Amount = None, rq_purpose = ''man''\<rparr>)
                                 orderList,
                           fr_pending = None\<rparr>)))))"

subsection \<open>\<open>/fill\<close> of the second command router\<close>

text \<open>The rates of the exchange, as \<open>traderapi.getRates\<close> returns them.\<close>

record rates =
  r_bid :: jsnum
  r_ask :: jsnum


text \<open>
  The second router of the repository has its own \<open>fill\<close>. It reads \<open>count\<close>, \<open>amount\<close>,
  \<open>low\<close> and \<open>high\<close>, takes the pair from \<open>$u.getPairObj\<close>, does not check the side word,
  falls back to five orders and to the bid and ask of the exchange, and places with
  \<open>traderapi.placeOrder\<close>.
\<close>

definition fill_param_legacy :: "helpers \<Rightarrow> fill_vars \<Rightarrow> string \<Rightarrow> fill_vars" where
  "fill_param_legacy h v param =
     fill_assign h param
       [(''count'', \<lambda>n v. v\<lparr>f_count := n\<rparr>),
        (''amount'', \<lambda>n v. v\<lparr>f_amount := n\<rparr>),
        (''low'', \<lambda>n v. v\<lparr>f_low := n\<rparr>),
        (''high'', \<lambda>n v. v\<lparr>f_high := n\<rparr>)] v"

text \<open>
  What the second \<open>fill\<close> meets outside: \<open>$u.getPairObj\<close> (the pair, and whether it came
  from the parameter), the rates, the balances, the values of \<open>$u.randomDeviation\<close>, and
  the answers of \<open>placeOrder\<close>: \<open>None\<close> for \<open>undefined\<close>, on which reading \<open>.orderid\<close>
  throws, otherwise whether the reply has an order id.
\<close>

record fill_env_legacy =
  lg_getPairObj :: "string \<Rightarrow> pairObj \<times> bool"
  lg_getRates :: "rates option"
  lg_getBalances :: "balance list option"
  lg_randomDeviation :: "nat \<Rightarrow> jsnum \<Rightarrow> jsnum \<Rightarrow> jsnum"
  lg_placeOrder :: "nat \<Rightarrow> fill_order \<Rightarrow> bool option"

text \<open>What the second \<open>fill\<close> knows when it reaches the balances.\<close>

record legacy_args =
  la_type :: string
  la_pairObj :: pairObj
  la_amount :: jsnum
  la_count :: jsnum
  la_low :: jsnum
  la_high :: jsnum

definition fill_arguments_legacy ::
  "helpers \<Rightarrow> config \<Rightarrow> fill_env_legacy \<Rightarrow> string list \<Rightarrow> string + legacy_args"
where
  "fill_arguments_legacy h cfg env params =
     (let v = foldl (fill_param_legacy h) fill_vars_init params in
      case params of
        p0 # p1 # _ # _ \<Rightarrow>
          (case lg_getPairObj env p0 of
             (po, isPairFromParam) \<Rightarrow>
               (let type = trim (if isPairFromParam then p1 else p0);
                    count = (if \<not> truthy_num (f_count v) \<or> f_count v = PosInf
                                \<or> num_lt (f_count v) (Fin 1)
                             then Fin 5 else f_count v);
                    noLow = (\<not> truthy_num (f_low v) \<or> f_low v = PosInf);
                    noHigh = (\<not> truthy_num (f_high v) \<or> f_high v = PosInf)
                in
                if po_pair po = [] then Inl ''Please specify market to fill orders in.''
                else if (noHigh \<or> noLow) \<and> lg_getRates env = None then
                  Inl (''Unable to get '' @ config_exchangeName cfg @ '' rates for '' @ po_pair po
                       @ '' to fill orders.'')
                else
                  (let low = (case lg_getRates env of
                                Some exchangeRates \<Rightarrow> if noLow then r_bid exchangeRates else f_low v
                              | None \<Rightarrow> f_low v);
                       high = (case lg_getRates env of
                                 Some exchangeRates \<Rightarrow> if noHigh then r_ask exchangeRates else f_high v
                               | None \<Rightarrow> f_high v)
                   in
                   if num_gt low high then
                     Inl ''To fill orders _high_ should be greater than _low_.''
                   else
                     Inr \<lparr>la_type = type, la_pairObj = po, la_amount = f_amount v,
                          la_count = count, la_low = low, la_high = high\<rparr>)))
      | _ \<Rightarrow>
          Inl (''Wrong arguments. Command works like this: */fill ADM/BTC buy ''
               @ ''amount=0.00002000 low=0.00000100 high=0.00000132 count=7*.''))"

text \<open>
  The placing loop of the second \<open>fill\<close>. The first component tells whether a call of
  \<open>placeOrder\<close> returned \<open>undefined\<close>, which makes \<open>fill\<close> throw; the last lists the
  orders for which \<open>placeOrder\<close> was called.
\<close>

fun place_legacy ::
  "fill_env_legacy \<Rightarrow> nat \<Rightarrow> fill_order list \<Rightarrow> nat \<Rightarrow> bool \<times> nat \<times> fill_order list"
where
  "place_legacy env i [] items = (False, items, [])"
| "place_legacy env i (order # rest) items =
     (case lg_placeOrder env i order of
        None \<Rightarrow> (True, items, [order])
      | Some hasId \<Rightarrow>
          (case place_legacy env (Suc i) rest (if hasId then Suc items else items) of
             (threw, items', called) \<Rightarrow> (threw, items', order # called)))"

datatype legacy_reply =
    LegacyMessage string
  | LegacyPlaced nat
  | LegacyNothingPlaced
  | LegacyThrew

record legacy_result =
  lr_reply :: legacy_reply
  lr_orders :: "fill_order list"

definition fill_legacy ::
  "helpers \<Rightarrow> config \<Rightarrow> fill_env_legacy \<Rightarrow> string list \<Rightarrow> legacy_result"
where
  "fill_legacy h cfg env params =
     (case fill_arguments_legacy h cfg env params of
        Inl message \<Rightarrow> \<lparr>lr_reply = LegacyMessage message, lr_orders = []\<rparr>
      | Inr a \<Rightarrow>
          (case lg_getBalances env of
             None \<Rightarrow>
               \<lparr>lr_reply = LegacyMessage (''Unable to get '' @ config_exchangeName cfg
                                            @ '' balances. Try again.''),
                lr_orders = []\<rparr>
           | Some balances \<Rightarrow>
               (let coin = (if la_type a = ''buy'' then po_coin2 (la_pairObj a)
                            else po_coin1 (la_pairObj a))
                in
                case filter (\<lambda>crypto. b_code crypto = coin) balances of
                  [] \<Rightarrow>
                    \<lparr>lr_reply = LegacyMessage ''Unable to process balances. Check parameters.'',
                     lr_orders = []\<rparr>
                | crypto # _ \<Rightarrow>
                    if \<not> num_ge (b_free crypto) (la_amount a) then
                      \<lparr>lr_reply = LegacyMessage (''Not enough '' @ coin
                                                   @ '' to fill orders. Check balances.''),
                       lr_orders = []\<rparr>
                    else
                      (let step = num_div (num_sub (la_high a) (la_low a)) (la_count a);
                           orderAmount = num_div (la_amount a) (la_count a);
                           orderList =
                             fill_orderList (lg_randomDeviation env)
                               (if la_type a = ''buy'' then Buy else Sell)
                               (la_amount a) (la_count a) (la_high a) step orderAmount
                               (loop_turns (la_count a)) 0 (la_low a) (Fin 0)
                       in
                       case place_legacy env 0 orderList 0 of
                         (threw, items, called) \<Rightarrow>
                           \<lparr>lr_reply = (if threw then LegacyThrew
                                         else if items > 0 then LegacyPlaced items
                                         else LegacyNothingPlaced),
                            lr_orders = called\<rparr>))))"

subsection \<open>\<open>/make price\<close>\<close>

text \<open>
  The answer of \<open>utils.getOrderBookInfo\<close> for a target price, on the fields \<open>make\<close>
  reads: \<open>typeTargetPrice\<close> is \<open>buy\<close>, \<open>sell\<close> or \<open>inSpread\<close>; \<open>amountTargetPrice\<close> and
  \<open>amountTargetPriceQuote\<close> are the base and quote amounts of the order book up to the
  target price.
\<close>

datatype target_type = TargetBuy | TargetSell | InSpread

record orderBookInfo =
  typeTargetPrice :: target_type
  amountTargetPrice :: jsnum
  amountTargetPriceQuote :: jsnum

text \<open>
  What \<open>make\<close> meets outside: the rates (\<open>None\<close> when \<open>getRatesInfo\<close> reports no
  success), the order book information for a target price (\<open>None\<close> when it cannot be
  computed and the \<open>try\<close> of \<open>make\<close> catches the error), the value drawn by
  \<open>utils.randomValue(1.05, 1.1)\<close>, and whether \<open>addGeneralOrder\<close> returns an order with an id.
\<close>

record make_env =
  getRatesInfo :: "rates option"
  getOrderBookInfo :: "jsnum \<Rightarrow> orderBookInfo option"
  reliabilityKoef :: jsnum
  make_addGeneralOrder :: "order_request \<Rightarrow> bool"

datatype make_reply =
    MakeIndicateOption
  | MakeRatesUnavailable
  | MakeIncorrectPrice
  | MakePriceInQuoteCoin
  | MakeSpecifyWhen
  | MakeAlreadyInSpread
  | MakeOrderPlaced
  | MakeUnableToPlace
  | MakeAskConfirmation
  | MakeError

record make_result =
  mr_reply :: make_reply
  mr_requests :: "order_request list"
  mr_pending :: "string option"

definition make_only :: "make_reply \<Rightarrow> make_result" where
  "make_only reply = \<lparr>mr_reply = reply, mr_requests = [], mr_pending = None\<rparr>"

text \<open>\<open>params[params.length - 1]\<close>.\<close>

definition last_param :: "string list \<Rightarrow> string option" where
  "last_param params = (if params = [] then None else Some (last params))"

text \<open>
  \<open>make\<close> of the first command router. \<open>MakeOrderPlaced\<close> is the path on which the order
  has an id; the reply of the source is then sent later by a timer. The command is stored
  as pending on both the confirmed and the unconfirmed path, as in the source.
\<close>

definition make :: "helpers \<Rightarrow> config \<Rightarrow> make_env \<Rightarrow> string list \<Rightarrow> make_result" where
  "make h cfg env params =
     (let param = trim (case params of [] \<Rightarrow> [] | p # _ \<Rightarrow> p) in
      if param \<noteq> ''price'' then make_only MakeIndicateOption
      else
        (case getRatesInfo env of
           None \<Rightarrow> make_only MakeRatesUnavailable
         | Some exchangeRatesBefore \<Rightarrow>
             (let targetPrice = (case at_index params 1 of None \<Rightarrow> NaN | Some w \<Rightarrow> toNumber h w) in
              if \<not> isPositiveNumber h targetPrice then make_only MakeIncorrectPrice
              else if map_option toUpperCase (at_index params 2) \<noteq> Some (config_coin2 cfg)
                      \<or> at_index params 2 = Some [] then
                make_only MakePriceInQuoteCoin
              else if map_option toUpperCase (at_index params 3) \<noteq> Some ''NOW'' then
                make_only MakeSpecifyWhen
              else
                (let isConfirmed = (last_param params = Some ''-y'' \<or> last_param params = Some ''-Y'') in
                 case getOrderBookInfo env targetPrice of
                   None \<Rightarrow> make_only MakeError
                 | Some orderBookInfo \<Rightarrow>
                     (let amount = num_mul (amountTargetPrice orderBookInfo) (reliabilityKoef env);
                          quote = num_mul (amountTargetPriceQuote orderBookInfo) (reliabilityKoef env)
                      in
                      case typeTargetPrice orderBookInfo of
                        InSpread \<Rightarrow> make_only MakeAlreadyInSpread
                      | side \<Rightarrow>
                          if isConfirmed then
                            (let request =
                                   \<lparr>rq_type = (if side = TargetBuy then Buy else Sell),
                                    rq_pair = config_pair cfg, rq_price = targetPrice,
                                    rq_coin1Amount = amount, rq_limit = 1,
                                    rq_coin2Amount = Some quote, rq_purpose = ''pm''\<rparr>
                             in
                             \<lparr>mr_reply = (if make_addGeneralOrder env request then MakeOrderPlaced
                                           else MakeUnableToPlace),
                              mr_requests = [request],
                              mr_pending = Some (''/make '' @ join_space params)\<rparr>)
                          else
                            \<lparr>mr_reply = MakeAskConfirmation, mr_requests = [],
                             mr_pending = Some (''/make '' @ join_space params)\<rparr>)))))"

section \<open>Concrete inputs\<close>



definition tradeParams_active :: tradeParams where
  "tradeParams_active = tradeParams_atomars\<lparr>mm_isActive := True\<rparr>"

text \<open>
  Helper modules for the examples: \<open>decimal\<close> as the conversion to numbers, a market
  parser that splits the pair at the slash, the number tests on finite values, and a
  purpose table with the tags of the specification.
\<close>

definition helpers_example :: helpers where
  "helpers_example =
     \<lparr>toNumber = decimal,
      parseMarket = (\<lambda>p. \<lparr>po_pair = p,
                            po_coin1 = takeWhile (\<lambda>c. c \<noteq> CHR ''/'') p,
                            po_coin2 = drop 1 (dropWhile (\<lambda>c. c \<noteq> CHR ''/'') p)\<rparr>),
      isPositiveOrZeroNumber = (\<lambda>n. case n of Fin x \<Rightarrow> 0 \<le> x | _ \<Rightarrow> False),
      isPositiveNumber = (\<lambda>n. case n of Fin x \<Rightarrow> 0 < x | _ \<Rightarrow> False),
      orderPurposes =
        [(''mm'', ''Market making''), (''ob'', ''Dynamic order book''), (''liq'', ''Liquidity''),
         (''pw'', ''Price watcher''), (''pm'', ''Price maker''), (''man'', ''Manual''),
         (''all'', ''All types'')],
      convertCryptos = (\<lambda>from to amount. amount)\<rparr>"

definition config_example :: config where
  "config_example =
     \<lparr>config_pair = ''ADM/USDT'', config_coin1 = ''ADM'', config_coin2 = ''USDT'',
      config_exchangeName = ''Atomars'', amount_to_confirm_usd = Fin 1000\<rparr>"

definition four_sell_orders :: "ledger_order list" where
  "four_sell_orders =
     [\<lparr>lo_id = ''o1'', lo_purpose = ''mm'', lo_pair = ''ADM/USDT'', lo_type = Sell,
       lo_price = 3 / 10, lo_isClosed = False\<rparr>,
      \<lparr>lo_id = ''o2'', lo_purpose = ''mm'', lo_pair = ''ADM/USDT'', lo_type = Sell,
       lo_price = 4 / 10, lo_isClosed = False\<rparr>,
      \<lparr>lo_id = ''o3'', lo_purpose = ''mm'', lo_pair = ''ADM/USDT'', lo_type = Sell,
       lo_price = 6 / 10, lo_isClosed = False\<rparr>,
      \<lparr>lo_id = ''o4'', lo_purpose = ''mm'', lo_pair = ''ADM/USDT'', lo_type = Sell,
       lo_price = 7 / 10, lo_isClosed = False\<rparr>]"

definition fill_scenario :: "string list" where
  "fill_scenario = [''ADM/USDT'', ''buy'', ''quote=0.01'', ''low=100'', ''high=110'', ''count=5'']"

definition fill_env_poor :: fill_env where
  "fill_env_poor =
     \<lparr>getBalancesCached = Some [\<lparr>b_code = ''ADM'', b_free = Fin 1000\<rparr>,
                                \<lparr>b_code = ''USDT'', b_free = Fin (5 / 1000)\<rparr>],
      randomDeviation = (\<lambda>i number deviation. number),
      addGeneralOrder = (\<lambda>i request. True)\<rparr>"

definition fill_env_rich :: fill_env where
  "fill_env_rich = fill_env_poor\<lparr>getBalancesCached := Some [\<lparr>b_code = ''USDT'', b_free = Fin 1\<rparr>]\<rparr>"

definition fill_scenario_legacy :: "string list" where
  "fill_scenario_legacy = [''ADM/USDT'', ''buy'', ''amount=0.01'', ''low=100'', ''high=110'', ''count=5'']"


definition fill_env_legacy_rich :: fill_env_legacy where
  "fill_env_legacy_rich =
     \<lparr>lg_getPairObj = (\<lambda>p. (parseMarket helpers_example p, True)),
      lg_getRates = None,
      lg_getBalances = Some [\<lparr>b_code = ''USDT'', b_free = Fin 1\<rparr>],
      lg_randomDeviation = (\<lambda>i number deviation. number),
      lg_placeOrder = (\<lambda>i order. Some True)\<rparr>"


definition make_env_example :: make_env where
  "make_env_example =
     \<lparr>getRatesInfo = Some \<lparr>r_bid = Fin (99 / 100), r_ask = Fin 1\<rparr>,
      getOrderBookInfo =
        (\<lambda>targetPrice. Some \<lparr>typeTargetPrice = TargetBuy, amountTargetPrice = Fin 50,
                              amountTargetPriceQuote = Fin (105 / 2)\<rparr>),
      reliabilityKoef = Fin (107 / 100),
      make_addGeneralOrder = (\<lambda>request. True)\<rparr>"

definition bitkub_pending :: bitkub_info where
  "bitkub_pending =
     \<lparr>bitkubErrorInfo = None, bk_partial_filled = False, bk_status = JStr ''pending'',
      bk_post_only = False\<rparr>"


definition bitkub_one_page :: "jsval \<Rightarrow> bitkub_page option promise" where
  "bitkub_one_page page =
     Resolved (Some \<lparr>bp_result = Some [\<lparr>bl_hash = JStr ''xyz'', bl_side = JStr ''sell'', bl_type = JStr ''limit''\<rparr>],
                     bp_pagination = Some \<lparr>pg_last = JNum (Fin 1), pg_prev = JNull\<rparr>\<rparr>)"



definition bitkub_filled :: bitkub_info where
  "bitkub_filled = bitkub_pending\<lparr>bk_status := JStr ''filled''\<rparr>"

definition pending_fill :: "unit bot" where
  "pending_fill =
     \<lparr>pending = \<lparr>command = ''/fill buy quote=5 low=1 high=2 count=3'', timestamp = 1000\<rparr>,
      world = ()\<rparr>"

definition router_ok :: "string \<Rightarrow> unit bot \<Rightarrow> commandResult option \<times> unit bot" where
  "router_ok cmd s =
     (Some \<lparr>msgNotify = ''placed'', msgSendBack = ''Placed'', notifyType = ''log''\<rparr>, s)"

definition router_undefined :: "string \<Rightarrow> unit bot \<Rightarrow> commandResult option \<times> unit bot" where
  "router_undefined cmd s = (None, s)"

section \<open>Properties of the order book builder\<close>

lemma setType_Fin:
  "setType tp r =
     (case mm_buyPercent tp of
        Fin p \<Rightarrow> if p = 0 then None else Some (if p < r then Buy else Sell)
      | NaN \<Rightarrow> None
      | PosInf \<Rightarrow> Some Sell
      | NegInf \<Rightarrow> Some Buy)"
  by (cases "mm_buyPercent tp") (simp_all add: setType_def num_gt_def)

text \<open>What \<open>/buypercent\<close> stores lies in the interval from \<open>0\<close> (excluded) to \<open>1\<close>.\<close>

lemma buypercent_range:
  "buypercent h param tp = (BuyPercentSet val, tp') \<Longrightarrow>
   \<exists>v. val = Fin v \<and> 0 < v \<and> v \<le> 100 \<and> mm_buyPercent tp' = Fin (v / 100)"
  by (cases "toNumber h (trim (case param of [] \<Rightarrow> [] | p # _ \<Rightarrow> p))")
     (auto simp: buypercent_def Let_def num_gt_def split: if_splits)

text \<open>
  Claim C1, as the code has it. For a buy percentage \<open>p\<close> with \<open>0 < p \<le> 1\<close> and the
  draw \<open>r\<close> of \<open>Math.random()\<close>, \<open>setType\<close> answers \<open>buy\<close> exactly when \<open>p < r\<close> and
  \<open>sell\<close> exactly when \<open>r \<le> p\<close>. Among the draws of \<open>[0, 1)\<close>, those that give \<open>buy\<close>
  are the open interval from \<open>p\<close> to \<open>1\<close>, of length \<open>1 - p\<close>: the builder buys with
  probability \<open>1 - mm_buyPercent\<close>, as the comment in \<open>setType\<close> and the reply of
  \<open>/buypercent\<close> announce.
\<close>

theorem setType_buy_above_buyPercent:
  assumes "mm_buyPercent tp = Fin p" and "0 < p" and "p \<le> 1"
  shows "(setType tp r = Some Buy \<longleftrightarrow> p < r) \<and>
         (setType tp r = Some Sell \<longleftrightarrow> r \<le> p) \<and>
         {x. 0 \<le> x \<and> x < 1 \<and> setType tp x = Some Buy} = {p<..<1} \<and>
         {x. 0 \<le> x \<and> x < 1 \<and> setType tp x = Some Sell} = {0..p} \<inter> {..<1}"
  using assms by (auto simp: setType_Fin)

theorem setType_buy_above_buyPercent_witness:
  "setType tradeParams_atomars (9 / 10) = Some Buy \<and>
   setType tradeParams_atomars (1 / 2) = Some Sell \<and>
   {x. 0 \<le> x \<and> x < 1 \<and> setType tradeParams_atomars x = Some Buy} = {67 / 100<..<1}"
proof -
  have p: "mm_buyPercent tradeParams_atomars = Fin (67 / 100)"
    by (simp add: tradeParams_atomars_def)
  have a: "(0::real) < 67 / 100" "(67 / 100 :: real) \<le> 1"
    by simp_all
  from setType_buy_above_buyPercent [OF p a, of "9 / 10"]
    setType_buy_above_buyPercent [OF p a, of "1 / 2"]
  show ?thesis by simp
qed

text \<open>
  Claim C1 as stated fails. After \<open>/buypercent 100\<close> the stored buy percentage is \<open>1\<close>,
  so the claim has every draw give \<open>buy\<close>; the draw \<open>0.5\<close> gives \<open>sell\<close>.
\<close>

theorem setType_buyPercent_counterexample:
  "fst (buypercent helpers_example [''100''] tradeParams_atomars) = BuyPercentSet (Fin 100) \<and>
   mm_buyPercent (snd (buypercent helpers_example [''100''] tradeParams_atomars)) = Fin 1 \<and>
   setType (snd (buypercent helpers_example [''100''] tradeParams_atomars)) (1 / 2) = Some Sell"
  by (simp add: buypercent_def helpers_example_def decimal_def unsigned_decimal_def trim_def
      isSpace_def num_gt_def setType_def tradeParams_atomars_def)





lemma iteration_keeps_ok:
  "iteration e b = Some b' \<Longrightarrow> builder_ok b \<Longrightarrow> builder_ok b'"
  by (cases e) (auto simp: builder_ok_def split: if_splits)

lemma run_events_keeps_ok:
  "run_events es b = Some b' \<Longrightarrow> builder_ok b \<Longrightarrow> builder_ok b'"
proof (induction es arbitrary: b)
  case Nil
  then show ?case by simp
next
  case (Cons e es)
  then obtain b1 where step: "iteration e b = Some b1" and rest: "run_events es b1 = Some b'"
    by (auto split: option.splits)
  from iteration_keeps_ok [OF step Cons.prems(2)] have "builder_ok b1" .
  with Cons.IH [OF rest] show ?case .
qed

text \<open>
  Claim C9, for the order book builder. After any history of calls of \<open>iteration\<close> and
  returns of \<open>buildOrderBook\<close>, at most one run is in flight; the flag is down exactly
  while a run is in flight; a call of \<open>iteration\<close> that arrives then changes nothing;
  and a call that starts a run found the flag up and no run in flight.
\<close>

theorem buildOrderBook_runs_never_overlap:
  assumes "run_events es builder_init = Some b"
  shows "inFlight b \<le> 1 \<and>
         (isPreviousIterationFinished b \<longleftrightarrow> inFlight b = 0) \<and>
         (inFlight b = 1 \<longrightarrow> iteration (IterationCalled tp interval) b = Some b) \<and>
         (\<forall>b'. iteration (IterationCalled tp interval) b = Some b' \<and> inFlight b < inFlight b'
               \<longrightarrow> isPreviousIterationFinished b \<and> inFlight b = 0 \<and> inFlight b' = 1
                    \<and> \<not> isPreviousIterationFinished b')"
proof -
  have "builder_ok builder_init"
    by (simp add: builder_ok_def builder_init_def)
  with run_events_keeps_ok [OF assms] have ok: "builder_ok b" .
  then show ?thesis
    by (auto simp: builder_ok_def)
qed

theorem buildOrderBook_runs_never_overlap_witness:
  "run_events [IterationCalled tradeParams_active 2000, IterationCalled tradeParams_active 1500]
     builder_init = Some \<lparr>isPreviousIterationFinished = False, inFlight = 1\<rparr> \<and>
   iteration (IterationCalled tradeParams_active 3000)
     \<lparr>isPreviousIterationFinished = False, inFlight = 1\<rparr>
     = Some \<lparr>isPreviousIterationFinished = False, inFlight = 1\<rparr>"
proof -
  have r: "run_events [IterationCalled tradeParams_active 2000,
                       IterationCalled tradeParams_active 1500] builder_init
           = Some \<lparr>isPreviousIterationFinished = False, inFlight = 1\<rparr>"
    by (simp add: tradeParams_active_def tradeParams_atomars_def builder_init_def
        MM_POLICIES_REGULAR_def)
  from buildOrderBook_runs_never_overlap [OF r, of tradeParams_active 3000] r show ?thesis
    by simp
qed

section \<open>Properties of the confirmation command\<close>

lemma timeToConfirm_ms: "timeToConfirm = 600000"
  by (simp add: timeToConfirm_def)






text \<open>
  The \<open>y\<close> of the second router never resets the pending command: two invocations in a
  row, both within the time limit, run the pending command twice.
\<close>

lemma y_legacy_twice_runs_twice:
  "snd (fst (twice (y_command_legacy router_ok) 2000 3000 pending_fill))
     = [''/fill buy quote=5 low=1 high=2 count=3 -y''] \<and>
   snd (snd (twice (y_command_legacy router_ok) 2000 3000 pending_fill))
     = [''/fill buy quote=5 low=1 high=2 count=3 -y'']"
  by (simp add: twice_def y_command_legacy_def pending_fill_def timeToConfirm_def router_ok_def)

text \<open>
  When the confirmed command returns \<open>undefined\<close>, \<open>y\<close> leaves through its \<open>catch\<close>
  before the reset, and a second \<open>y\<close> runs the command again.
\<close>

lemma y_twice_runs_twice_when_router_undefined:
  "snd (fst (twice (y_command router_undefined) 2000 3000 pending_fill))
     = [''/fill buy quote=5 low=1 high=2 count=3 -y''] \<and>
   snd (snd (twice (y_command router_undefined) 2000 3000 pending_fill))
     = [''/fill buy quote=5 low=1 high=2 count=3 -y'']"
  by (simp add: twice_def y_command_def pending_fill_def timeToConfirm_def router_undefined_def)

section \<open>Properties of the clear command\<close>

lemma clear_purpose_no_match:
  "toLowerCase param \<notin> fst ` set tbl \<Longrightarrow> clear_purpose tbl param v = v"
  by (induction tbl arbitrary: v) auto

lemma clear_purpose_match:
  "toLowerCase param \<in> fst ` set tbl \<Longrightarrow>
   \<exists>d. clear_purpose tbl param v
        = v\<lparr>c_purposes := Purposes [toLowerCase param], c_purposeString := Some d\<rparr>"
proof (induction tbl arbitrary: v)
  case Nil
  then show ?case by simp
next
  case (Cons kd tbl)
  obtain k d where kd: "kd = (k, d)" by (cases kd)
  show ?case
  proof (cases "toLowerCase param \<in> fst ` set tbl")
    case True
    let ?v' = "if toLowerCase param = k
               then v\<lparr>c_purposes := Purposes [k], c_purposeString := Some (toLowerCase d)\<rparr>
               else v"
    from Cons.IH [OF True, of ?v'] obtain d' where
      "clear_purpose tbl param ?v'
         = ?v'\<lparr>c_purposes := Purposes [toLowerCase param], c_purposeString := Some d'\<rparr>"
      by blast
    with kd show ?thesis
      by (auto intro!: exI [of _ d'])
  next
    case False
    with Cons.prems kd have "toLowerCase param = k" by auto
    with False kd show ?thesis
      by (auto simp: clear_purpose_no_match)
  qed
qed

lemma clear_loop_append:
  "clear_loop h cfg po params (xs @ ys) v =
     (case clear_loop h cfg po params xs v of
        Inl m \<Rightarrow> Inl m
      | Inr v' \<Rightarrow> clear_loop h cfg po params ys v')"
  by (induction xs arbitrary: v) (auto split: sum.splits)

lemma clearLocalOrders_attempted:
  "attempted (fst (clearLocalOrders c ps pair force side f ledger))
     = map lo_id (filter (selected ps pair side f) ledger)"
  by (induction ledger) (auto simp: clearedInfo_none_def split: prod.splits cancel_reply.splits)

lemma clearLocalOrders_ledger:
  "snd (clearLocalOrders c ps pair force side f ledger)
     = map (\<lambda>order. if selected ps pair side f order
                     then order\<lparr>lo_isClosed := (c order = TransientFailure \<longrightarrow> force)\<rparr>
                     else order) ledger"
  by (induction ledger) (auto split: prod.splits cancel_reply.splits)

lemma clearLocalOrders_cancelled:
  "cancelled (fst (clearLocalOrders c ps pair force side f ledger))
     = length (filter (\<lambda>order. selected ps pair side f order \<and> c order = Cancelled) ledger)"
  by (induction ledger) (auto simp: clearedInfo_none_def split: prod.splits cancel_reply.splits)

lemma lower_words:
  "toLowerCase ''buy'' = ''buy''" "toLowerCase ''sell'' = ''sell''"
  by (simp_all add: toLowerCase_def lowerChar_def)

lemma lower_operator:
  "operator = CHR ''<'' \<or> operator = CHR ''>'' \<Longrightarrow> toLowerCase (operator # num) = operator # toLowerCase num"
  by (elim disjE) (simp_all add: toLowerCase_def lowerChar_def)

lemma filtered_keys_notin: "k \<notin> fst ` set tbl \<Longrightarrow> k \<notin> fst ` set (filter P tbl)"
  by auto

lemma filtered_keys_in:
  "k \<in> fst ` set tbl \<Longrightarrow> k \<noteq> ''all'' \<Longrightarrow>
   k \<in> fst ` set (filter (\<lambda>(k, d). k \<noteq> ''all'') tbl)"
  by (induction tbl) auto

lemma clear_purpose_tbl_no_match:
  "toLowerCase param \<notin> fst ` set (orderPurposes h) \<Longrightarrow>
   clear_purpose (filter (\<lambda>(k, d). k \<noteq> ''all'') (orderPurposes h)) param v = v"
  by (rule clear_purpose_no_match) (rule filtered_keys_notin)

lemma clear_param_plain_word:
  assumes "toLowerCase w \<notin> {''buy'', ''sell'', ''force'', ''all'', ''unk''}"
    and "toLowerCase w \<notin> fst ` set (orderPurposes h)"
    and "\<not> startsWith w ''>''" and "\<not> startsWith w ''<''"
  shows "clear_param h cfg po params w v = Inr v"
  using assms by (simp add: clear_param_def Let_def clear_purpose_tbl_no_match)

lemma clear_param_side_word:
  assumes "''buy'' \<notin> fst ` set (orderPurposes h)" and "''sell'' \<notin> fst ` set (orderPurposes h)"
  shows "clear_loop h cfg po params (side_words side) v
           = Inr (case side of None \<Rightarrow> v | Some t \<Rightarrow> v\<lparr>c_type := Some t\<rparr>)"
proof (cases side)
  case None
  then show ?thesis by (simp add: side_words_def)
next
  case (Some t)
  with assms show ?thesis
    by (cases t)
       (simp_all add: side_words_def clear_param_def Let_def lower_words startsWith_def
          clear_purpose_tbl_no_match)
qed

lemma clear_param_filter_word:
  assumes operator: "operator = CHR ''<'' \<or> operator = CHR ''>''"
    and flt: "toLowerCase (operator # num) \<notin> fst ` set (orderPurposes h)"
    and price: "toNumber h num = Fin P" "isPositiveOrZeroNumber h (Fin P)"
    and coin: "toUpperCase coin = po_coin2 po"
    and idx: "at_index params (indexOf params (operator # num) + 1) = Some coin"
    and v: "c_purposes v = Purposes ps"
  shows "clear_param h cfg po params (operator # num) v
           = Inr (v\<lparr>c_filerPriceString := Some (operator # num),
                    c_filter := Some (if operator = CHR ''<'' then PriceLt (Fin P)
                                      else PriceGt (Fin P))\<rparr>)"
proof -
  from operator have sw: "startsWith (operator # num) ''>'' \<or> startsWith (operator # num) ''<''"
    by (auto simp: startsWith_def)
  from operator have l: "toLowerCase (operator # num) \<noteq> ''buy''"
    "toLowerCase (operator # num) \<noteq> ''sell''" "toLowerCase (operator # num) \<noteq> ''force''"
    "toLowerCase (operator # num) \<noteq> ''all''" "toLowerCase (operator # num) \<noteq> ''unk''"
    by (auto simp: lower_operator)
  from idx have idx': "at_index params (Suc (indexOf params (operator # num))) = Some coin"
    by simp
  show ?thesis
    unfolding clear_param_def Let_def
    by (simp only: l if_False clear_purpose_tbl_no_match [OF flt] sw if_True)
       (simp add: v price idx' coin)
qed

lemma filter_word_index:
  assumes params: "params = [tag] @ side_words side @ [operator # num, coin]"
    and neq: "tag \<noteq> operator # num"
    and operator: "operator = CHR ''<'' \<or> operator = CHR ''>''"
  shows "at_index params (indexOf params (operator # num) + 1) = Some coin"
proof (cases side)
  case None
  with params neq show ?thesis by (simp add: side_words_def)
next
  case (Some t)
  with params neq operator show ?thesis by (cases t) (auto simp: side_words_def)
qed

lemma clear_command_parsed:
  assumes po: "po = parseMarket h (config_pair cfg)"
    and tag: "toLowerCase tag \<in> fst ` set (orderPurposes h)"
      "toLowerCase tag \<notin> {''buy'', ''sell'', ''force'', ''all'', ''unk''}"
      "CHR ''/'' \<notin> set tag" "\<not> startsWith tag ''>''" "\<not> startsWith tag ''<''"
    and keys: "''buy'' \<notin> fst ` set (orderPurposes h)" "''sell'' \<notin> fst ` set (orderPurposes h)"
    and operator: "operator = CHR ''<'' \<or> operator = CHR ''>''"
    and flt: "toLowerCase (operator # num) \<notin> fst ` set (orderPurposes h)"
    and price: "toNumber h num = Fin P" "isPositiveOrZeroNumber h (Fin P)"
    and coin: "toUpperCase coin = po_coin2 po"
      "toLowerCase coin \<notin> {''buy'', ''sell'', ''force'', ''all'', ''unk''}"
      "toLowerCase coin \<notin> fst ` set (orderPurposes h)"
      "\<not> startsWith coin ''>''" "\<not> startsWith coin ''<''"
    and params: "params = [tag] @ side_words side @ [operator # num, coin]"
  shows "clear h cfg params =
           ClearLocalOrders [toLowerCase tag] (po_pair po) False side
             (Some (if operator = CHR ''<'' then PriceLt (Fin P) else PriceGt (Fin P)))"
proof -
  let ?tbl = "filter (\<lambda>(k, d). k \<noteq> ''all'') (orderPurposes h)"
  let ?f = "if operator = CHR ''<'' then PriceLt (Fin P) else PriceGt (Fin P)"
  from tag have "toLowerCase tag \<in> fst ` set ?tbl"
    by (intro filtered_keys_in) simp_all
  from clear_purpose_match [OF this, of clear_vars_init] obtain d where
    d: "clear_purpose ?tbl tag clear_vars_init
          = clear_vars_init\<lparr>c_purposes := Purposes [toLowerCase tag], c_purposeString := Some d\<rparr>"
    by blast
  define v1 where
    "v1 = clear_vars_init\<lparr>c_purposes := Purposes [toLowerCase tag], c_purposeString := Some d\<rparr>"
  have s1: "clear_param h cfg po params tag clear_vars_init = Inr v1"
    using tag d by (simp add: clear_param_def Let_def v1_def)
  define v2 where "v2 = v1\<lparr>c_type := side\<rparr>"
  have "(case side of None \<Rightarrow> v1 | Some t \<Rightarrow> v1\<lparr>c_type := Some t\<rparr>) = v2"
    by (cases side) (simp_all add: v2_def v1_def clear_vars_init_def)
  with clear_param_side_word [OF keys, of cfg po params side v1]
  have s2: "clear_loop h cfg po params (side_words side) v1 = Inr v2"
    by simp
  have neq: "tag \<noteq> operator # num"
    using tag operator by (auto simp: startsWith_def)
  have v2p: "c_purposes v2 = Purposes [toLowerCase tag]"
    by (simp add: v2_def v1_def)
  define v3 where "v3 = v2\<lparr>c_filerPriceString := Some (operator # num), c_filter := Some ?f\<rparr>"
  have s3: "clear_param h cfg po params (operator # num) v2 = Inr v3"
    unfolding v3_def
    by (rule clear_param_filter_word [OF operator flt price coin(1)
          filter_word_index [OF params neq operator] v2p])
  have s4: "clear_param h cfg po params coin v3 = Inr v3"
    by (rule clear_param_plain_word [OF coin(2-5)])
  have "clear_loop h cfg po params ([tag] @ side_words side @ [operator # num, coin])
          clear_vars_init = Inr v3"
    using s1 s2 s3 s4 by (simp add: clear_loop_append)
  then have loop: "clear_loop h cfg po params params clear_vars_init = Inr v3"
    by (simp only: params)
  have pair: "(case params of [] \<Rightarrow> config_pair cfg
               | p # _ \<Rightarrow> if p = [] \<or> CHR ''/'' \<notin> set p then config_pair cfg else p)
              = config_pair cfg"
    using params tag by simp
  have fields: "c_purposes v3 = Purposes [toLowerCase tag]" "c_doForce v3 = False"
    "c_type v3 = side" "c_filter v3 = Some ?f"
    by (simp_all add: v3_def v2_def v1_def clear_vars_init_def)
  show ?thesis
    unfolding clear_def Let_def pair po [symmetric]
    by (simp only: loop fields sum.case purposes.case)
qed

lemma selected_matches_command:
  "selected [tag] pair side
     (Some (if operator = CHR ''<'' then PriceLt (Fin P) else PriceGt (Fin P)))
   = matches_command tag pair side operator P"
  by (rule ext) (simp add: selected_def matches_command_def price_matches_def num_gt_def)

text \<open>
  Claim C6. A command \<open>/clear tag [side] >P coin\<close> or \<open>/clear tag [side] <P coin\<close>, with
  \<open>tag\<close> a purpose of the collector's table and \<open>coin\<close> the quote coin of the pair,
  reaches \<open>clearLocalOrders\<close>, and cancellation is attempted for exactly the open ledger
  orders of that purpose, pair and side whose price is strictly greater than \<open>P\<close> (for
  \<open>>\<close>) or strictly less than \<open>P\<close> (for \<open><\<close>); every other row of the ledger is left
  as it was. The witness is the example of the specification: four sell mm-orders at
  0.3, 0.4, 0.6, 0.7 and \<open>/clear mm sell >0.5 USDT\<close> give attempted = cancelled = 2.
\<close>

theorem clear_price_filter_cancels_matching:
  assumes po: "po = parseMarket h (config_pair cfg)"
    and tag: "toLowerCase tag \<in> fst ` set (orderPurposes h)"
      "toLowerCase tag \<notin> {''buy'', ''sell'', ''force'', ''all'', ''unk''}"
      "CHR ''/'' \<notin> set tag" "\<not> startsWith tag ''>''" "\<not> startsWith tag ''<''"
    and keys: "''buy'' \<notin> fst ` set (orderPurposes h)" "''sell'' \<notin> fst ` set (orderPurposes h)"
    and operator: "operator = CHR ''<'' \<or> operator = CHR ''>''"
    and flt: "toLowerCase (operator # num) \<notin> fst ` set (orderPurposes h)"
    and price: "toNumber h num = Fin P" "isPositiveOrZeroNumber h (Fin P)"
    and coin: "toUpperCase coin = po_coin2 po"
      "toLowerCase coin \<notin> {''buy'', ''sell'', ''force'', ''all'', ''unk''}"
      "toLowerCase coin \<notin> fst ` set (orderPurposes h)"
      "\<not> startsWith coin ''>''" "\<not> startsWith coin ''<''"
    and params: "params = [tag] @ side_words side @ [operator # num, coin]"
  shows "\<exists>info ledger'.
           clear_local h cfg cancelOrder params ledger = Some (info, ledger') \<and>
           attempted info =
             map lo_id (filter (matches_command (toLowerCase tag) (po_pair po) side operator P) ledger) \<and>
           ledger' =
             map (\<lambda>order. if matches_command (toLowerCase tag) (po_pair po) side operator P order
                            then order\<lparr>lo_isClosed := (cancelOrder order \<noteq> TransientFailure)\<rparr>
                            else order) ledger"
proof -
  let ?f = "Some (if operator = CHR ''<'' then PriceLt (Fin P) else PriceGt (Fin P))"
  let ?r = "clearLocalOrders cancelOrder [toLowerCase tag] (po_pair po) False side ?f ledger"
  from clear_command_parsed [OF assms]
  have "clear_local h cfg cancelOrder params ledger = Some (fst ?r, snd ?r)"
    by (simp add: clear_local_def)
  moreover have "attempted (fst ?r) =
      map lo_id (filter (matches_command (toLowerCase tag) (po_pair po) side operator P) ledger)"
    by (simp only: clearLocalOrders_attempted selected_matches_command)
  moreover have "snd ?r =
      map (\<lambda>order. if matches_command (toLowerCase tag) (po_pair po) side operator P order
                     then order\<lparr>lo_isClosed := (cancelOrder order \<noteq> TransientFailure)\<rparr>
                     else order) ledger"
    by (simp only: clearLocalOrders_ledger selected_matches_command) simp
  ultimately show ?thesis by blast
qed

lemmas example_eval = helpers_example_def config_example_def
  toLowerCase_def toUpperCase_def lowerChar_def upperChar_def startsWith_def decimal_def
  unsigned_decimal_def trim_def isSpace_def

theorem clear_price_filter_cancels_matching_witness:
  "\<exists>info ledger'.
     clear_local helpers_example config_example (\<lambda>order. Cancelled)
       [''mm'', ''sell'', ''>0.5'', ''USDT''] four_sell_orders = Some (info, ledger') \<and>
     attempted info = [''o3'', ''o4''] \<and> cancelled info = 2 \<and>
     map lo_isClosed ledger' = [False, False, True, True]"
proof -
  let ?po = "parseMarket helpers_example (config_pair config_example)"
  have p: "[''mm'', ''sell'', ''>0.5'', ''USDT'']
             = [''mm''] @ side_words (Some Sell) @ [CHR ''>'' # ''0.5'', ''USDT'']"
    by (simp add: side_words_def)
  have "\<exists>info ledger'.
          clear_local helpers_example config_example (\<lambda>order. Cancelled)
            [''mm'', ''sell'', ''>0.5'', ''USDT''] four_sell_orders = Some (info, ledger') \<and>
          attempted info =
            map lo_id (filter (matches_command (toLowerCase ''mm'') (po_pair ?po) (Some Sell)
                                 (CHR ''>'') (1 / 2)) four_sell_orders) \<and>
          ledger' =
            map (\<lambda>order. if matches_command (toLowerCase ''mm'') (po_pair ?po) (Some Sell)
                                (CHR ''>'') (1 / 2) order
                           then order\<lparr>lo_isClosed := (Cancelled \<noteq> TransientFailure)\<rparr>
                           else order) four_sell_orders"
    by (rule clear_price_filter_cancels_matching [where num = "''0.5''" and coin = "''USDT''", OF refl _ _ _ _ _ _ _ _ _ _ _ _ _ _ _ _ p])
       (simp_all add: example_eval)
  then obtain info ledger' where
    r: "clear_local helpers_example config_example (\<lambda>order. Cancelled)
          [''mm'', ''sell'', ''>0.5'', ''USDT''] four_sell_orders = Some (info, ledger')"
    and a: "attempted info =
            map lo_id (filter (matches_command (toLowerCase ''mm'') (po_pair ?po) (Some Sell)
                                 (CHR ''>'') (1 / 2)) four_sell_orders)"
    and l: "ledger' =
            map (\<lambda>order. if matches_command (toLowerCase ''mm'') (po_pair ?po) (Some Sell)
                                (CHR ''>'') (1 / 2) order
                           then order\<lparr>lo_isClosed := (Cancelled \<noteq> TransientFailure)\<rparr>
                           else order) four_sell_orders"
    by blast
  have a': "attempted info = [''o3'', ''o4'']"
    unfolding a by (simp add: example_eval matches_command_def four_sell_orders_def)
  have l': "map lo_isClosed ledger' = [False, False, True, True]"
    unfolding l by (simp add: example_eval matches_command_def four_sell_orders_def)
  have "clear helpers_example config_example [''mm'', ''sell'', ''>0.5'', ''USDT'']
     = ClearLocalOrders [''mm''] ''ADM/USDT'' False (Some Sell) (Some (PriceGt (Fin (1/2))))"
    by (simp add: example_eval clear_def clear_param_def clear_vars_init_def)
  then have "clear_local helpers_example config_example (\<lambda>order. Cancelled)
          [''mm'', ''sell'', ''>0.5'', ''USDT''] four_sell_orders
        = Some (clearLocalOrders (\<lambda>order. Cancelled) [''mm''] ''ADM/USDT'' False (Some Sell)
                  (Some (PriceGt (Fin (1/2)))) four_sell_orders)"
    by (simp add: clear_local_def)
  with r have "info = fst (clearLocalOrders (\<lambda>order. Cancelled) [''mm''] ''ADM/USDT'' False (Some Sell)
                  (Some (PriceGt (Fin (1/2)))) four_sell_orders)"
    by simp
  then have c: "cancelled info = 2"
    by (simp add: selected_def price_matches_def num_gt_def four_sell_orders_def
        clearedInfo_none_def)
  show ?thesis
    by (intro exI [of _ info] exI [of _ ledger'] conjI r a' c l')
qed

text \<open>
  Claim C10 at the input \<open>/clear >0.5 USDT all\<close>. The test that rejects a price filter
  together with \<open>all\<close> or \<open>unk\<close> runs when the filter word is read and looks at the
  purposes read so far. With the filter first, the command is not rejected: it calls
  \<open>clearAllOrders\<close>, which takes no price filter.
\<close>

theorem clear_filter_before_all_cancels_everything:
  "clear helpers_example config_example [''>0.5'', ''USDT'', ''all'']
     = ClearAllOrders ''ADM/USDT'' False None"
  by (simp add: example_eval clear_def clear_param_def clear_vars_init_def)

text \<open>With the words in the other order the command is rejected.\<close>

lemma clear_all_before_filter_rejected:
  "clear helpers_example config_example [''all'', ''>0.5'', ''USDT'']
     = SendBack (''Price filter doesn'' @ apostrophe
                 @ ''t work with **all** and **unk** orders. Try: */clear mm sell >0.5 USDT*.'')"
  by (simp add: example_eval clear_def clear_param_def clear_vars_init_def)

text \<open>The same with \<open>unk\<close> after the filter: all unknown sell orders are cancelled.\<close>

lemma clear_filter_before_unk_cancels_unknown:
  "clear helpers_example config_example [''sell'', ''<2'', ''usdt'', ''unk'']
     = ClearUnknownOrders ''ADM/USDT'' False (Some Sell)"
  by (simp add: example_eval clear_def clear_param_def clear_vars_init_def)

section \<open>Properties of the fill command\<close>





text \<open>
  Without any assumption on the command: whenever \<open>fill\<close> asks for an order to be placed,
  the free balance was at least the requested amount.
\<close>

lemma fill_requests_need_balance:
  assumes "fr_requests (fill h cfg env params) \<noteq> []"
  shows "\<exists>a balances.
           fill_arguments h cfg params = Inr a \<and> getBalancesCached env = Some balances \<and>
           num_ge (free_balance balances
                     (if fa_type a = Buy then po_coin2 (fa_pairObj a) else po_coin1 (fa_pairObj a)))
                  (fa_amount a)"
  using assms
  by (auto simp: fill_def Let_def split: sum.splits option.splits if_splits prod.splits)

lemma fill_scenario_arguments:
  "fill_arguments helpers_example config_example fill_scenario =
     Inr \<lparr>fa_type = Buy,
          fa_pairObj = \<lparr>po_pair = ''ADM/USDT'', po_coin1 = ''ADM'', po_coin2 = ''USDT''\<rparr>,
          fa_amount = Fin (1 / 100), fa_amountName = ''quote'', fa_count = Fin 5,
          fa_low = Fin 100, fa_high = Fin 110\<rparr>"
  by (simp add: fill_arguments_def fill_scenario_def fill_param_def fill_value_def
      fill_vars_init_def num_gt_def example_eval)



text \<open>The same command with 1 USDT free, and draws without deviation, places five orders.\<close>

lemma fill_enough_balance_places:
  "map rq_price (fr_requests (fill helpers_example config_example fill_env_rich fill_scenario))
     = [Fin 102, Fin 104, Fin 106, Fin 108, Fin 110] \<and>
   fr_reply (fill helpers_example config_example fill_env_rich fill_scenario)
     = FillPlaced 5 0 (Fin (1/51000 + 1/52000 + 1/53000 + 1/54000 + 1/55000)) (Fin (1 / 100))"
  unfolding fill_def fill_scenario_arguments sum.case
  by (simp add: fill_env_rich_def fill_env_poor_def free_balance_def helpers_example_def
      config_example_def loop_turns_def num_sub_def num_gt_def fill_scenario_def
      toLowerCase_def lowerChar_def eval_nat_numeral Let_def)

text \<open>The second router with 1 USDT free places five orders as well.\<close>

lemma fill_legacy_enough_balance_places:
  "map fo_price
     (lr_orders (fill_legacy helpers_example config_example fill_env_legacy_rich
                   fill_scenario_legacy))
     = [Fin 102, Fin 104, Fin 106, Fin 108, Fin 110]"
proof -
  have args: "fill_arguments_legacy helpers_example config_example fill_env_legacy_rich
                fill_scenario_legacy =
     Inr \<lparr>la_type = ''buy'',
          la_pairObj = \<lparr>po_pair = ''ADM/USDT'', po_coin1 = ''ADM'', po_coin2 = ''USDT''\<rparr>,
          la_amount = Fin (1 / 100), la_count = Fin 5, la_low = Fin 100, la_high = Fin 110\<rparr>"
    by (simp add: fill_arguments_legacy_def fill_scenario_legacy_def fill_param_legacy_def
        fill_value_def fill_vars_init_def fill_env_legacy_rich_def num_gt_def example_eval)
  show ?thesis
    unfolding fill_legacy_def args sum.case
    by (simp add: fill_env_legacy_rich_def loop_turns_def num_sub_def num_gt_def
        eval_nat_numeral Let_def)
qed

section \<open>Properties of the make command\<close>



text \<open>Without the confirmation word the command places nothing and waits for \<open>/y\<close>.\<close>

lemma make_unconfirmed_asks:
  "make helpers_example config_example make_env_example [''price'', ''1.10'', ''USDT'', ''now'']
     = \<lparr>mr_reply = MakeAskConfirmation, mr_requests = [],
        mr_pending = Some ''/make price 1.10 USDT now''\<rparr>"
  by (simp add: make_def make_env_example_def last_param_def example_eval Let_def
      eval_nat_numeral)

section \<open>Properties of the exchange adapters\<close>






text \<open>The history search on a history of one page: page 1, the last page, which is page 1 again.\<close>

lemma history_one_page:
  "history_search decimal bitkub_one_page ''abc'' (JNum (Fin 1)) False = Some NotFound"
  apply (subst history_search.simps)
  apply (simp add: bitkub_one_page_def find_order_def)
  apply (subst history_search.simps)
  apply (simp add: bitkub_one_page_def find_order_def)
  done




text \<open>An order id that Bitkub lists nowhere: the history has one page, the search ends.\<close>

lemma getOrderDetails_bitkub_not_found:
  "getOrderDetails_bitkub decimal (Resolved (Some bitkub_filled))
     (Resolved (Some \<lparr>bp_result = Some [], bp_pagination = None\<rparr>)) bitkub_one_page ''abc''
     = Some (Some ''unknown'')"
  by (simp add: getOrderDetails_bitkub_def bitkub_filled_def bitkub_pending_def
      has_error_info_def order_search_def find_order_def history_one_page)

end
